theory Spec2Isabelle
  imports Complex_Main
begin

section \<open>Values thrown, and the world outside the services\<close>

text \<open>
  The three RAG services (\<open>RagService\<close> on LibSQL, \<open>PgVectorRagService\<close>,
  \<open>QdrantRagService\<close>) and the \<open>DuplicateCheckService\<close> are asynchronous TypeScript
  classes. Each \<open>await\<close> is sequential, so an operation is modelled as a function from
  the world before it to its outcome and the world after it. A thrown value is a result
  \<open>Inl\<close>; whatever the operation did to the world before throwing stays done.
\<close>

datatype thrown =
    Error string              \<comment> \<open>\<open>new Error(message)\<close>, also what a library throws\<close>
  | RagError string string    \<comment> \<open>\<open>new RagError(message, code, details)\<close>; it extends \<open>Error\<close>\<close>
  | NonError                  \<comment> \<open>a thrown value that is not an \<open>Error\<close> instance\<close>

text \<open>\<open>error instanceof Error ? error.message : "Unknown error"\<close>\<close>

fun errorMessage :: "thrown \<Rightarrow> string" where
  "errorMessage (Error m) = m"
| "errorMessage (RagError m c) = m"
| "errorMessage NonError = ''Unknown error''"

type_synonym vec = "real list"

datatype provider = OpenAI | Anthropic | Google

record embedding_config =
  ec_provider :: provider
  ec_model :: string
  ec_apiKey :: string
  ec_dimensions :: "nat option"

datatype chunking_strategy = Recursive | Character | Token | Markdown | Html | Json | Latex

record chunking_options =
  co_strategy :: "chunking_strategy option"
  co_size :: "nat option"
  co_overlap :: "nat option"
  co_separator :: "string option"
  co_extractMetadata :: "bool option"

text \<open>
  The metadata of a document or chunk is an open key/value object in the source
  (\<open>DocumentMetadata\<close>, \<open>ChunkMetadata\<close> and the keys the services add when they store a
  chunk). The model keeps every key the code reads or writes, each optional, with the type
  the interfaces declare. Times are natural numbers.
\<close>

record metadata =
  md_title :: "string option"
  md_source :: "string option"
  md_author :: "string option"
  md_category :: "string option"
  md_tags :: "string list option"
  md_createdAt :: "nat option"
  md_updatedAt :: "nat option"
  md_skipped :: "bool option"
  md_chunkIndex :: "nat option"
  md_startPosition :: "nat option"
  md_endPosition :: "nat option"
  md_text :: "string option"
  md_documentId :: "string option"
  md_chunkId :: "string option"
  md_embedding_index :: "nat option"

definition empty_metadata :: metadata where
  "empty_metadata = \<lparr> md_title = None, md_source = None, md_author = None,
     md_category = None, md_tags = None, md_createdAt = None, md_updatedAt = None,
     md_skipped = None, md_chunkIndex = None, md_startPosition = None,
     md_endPosition = None, md_text = None, md_documentId = None, md_chunkId = None,
     md_embedding_index = None \<rparr>"

text \<open>JavaScript's \<open>a || b\<close> on an optional string: absent and empty are both falsy.\<close>

fun str_or :: "string option \<Rightarrow> string \<Rightarrow> string" where
  "str_or None d = d"
| "str_or (Some s) d = (if s = [] then d else s)"

text \<open>\<open>a || b\<close> on an optional number: absent and 0 are both falsy.\<close>

fun num_or :: "nat option \<Rightarrow> nat \<Rightarrow> nat" where
  "num_or None d = d"
| "num_or (Some n) d = (if n = 0 then d else n)"

text \<open>A value of the JSON object the language model answers with.\<close>

datatype jsval = JNull | JBool bool | JNum real | JStr string | JObject

fun truthy :: "jsval \<Rightarrow> bool" where
  "truthy JNull = False"
| "truthy (JBool b) = b"
| "truthy (JNum x) = (x \<noteq> 0)"
| "truthy (JStr s) = (s \<noteq> [])"
| "truthy JObject = True"

text \<open>
  What \<open>JSON.parse\<close> gives for the answer's object, as far as \<open>makeAIDecision\<close> reads it.
  \<open>targetDocumentId\<close> is taken to be a string when present, as the \<open>AIDecision\<close>
  interface declares; the other three fields are read as they come.
\<close>

record parsed_answer =
  pa_action :: "jsval option"
  pa_reason :: "jsval option"
  pa_targetDocumentId :: "string option"
  pa_confidence :: "jsval option"

record preview =
  pv_title :: string
  pv_author :: string
  pv_category :: string
  pv_content :: string

record prompt =
  pr_newDocument :: preview
  pr_similarDocuments :: "(real \<times> preview) list"
  pr_threshold :: real

text \<open>A chunk as \<open>MDocument\<close> returns it.\<close>

record piece =
  pc_text :: string
  pc_startIndex :: "nat option"
  pc_endIndex :: "nat option"

record chunk_request =
  cr_fromMarkdown :: bool
  cr_strategy :: chunking_strategy
  cr_size :: nat
  cr_overlap :: nat
  cr_separator :: "string option"
  cr_extractMetadata :: "bool option"

text \<open>
  The libraries the services call: the embedding provider, the chunker of \<open>MDocument\<close>,
  the text-generation model, \<open>JSON.parse\<close> (\<open>None\<close> when it throws), the similarity the
  vector store ranks by, \<open>randomUUID\<close> (the n-th identifier drawn) and the clock.
\<close>

record rag_env =
  embeddingConfig :: embedding_config
  embedText :: "provider \<times> string \<times> nat option \<Rightarrow> string \<Rightarrow> vec"
  splitText :: "chunk_request \<Rightarrow> string \<Rightarrow> piece list"
  generateText :: "string \<Rightarrow> prompt \<Rightarrow> string"
  JSON_parse :: "string \<Rightarrow> parsed_answer option"
  similarity :: "vec \<Rightarrow> vec \<Rightarrow> real"
  uuid :: "nat \<Rightarrow> string"
  now :: nat

record entry =
  e_id :: string
  e_vector :: vec
  e_metadata :: metadata

text \<open>Every call that leaves the process, in the order made.\<close>

datatype call =
    Embed string
  | EmbedMany "string list"
  | Chunk string
  | GenerateText string
  | Query string nat
  | Upsert string nat
  | DeleteVector string string

text \<open>
  The world: the vectors stored under each index name, the outcome the environment has
  in store for each coming external call (\<open>Some t\<close>: that call throws \<open>t\<close>; an exhausted
  schedule means no further failure), the calls made so far, and how many identifiers
  \<open>randomUUID\<close> has handed out.
\<close>

record world =
  vectors :: "string \<Rightarrow> entry list"
  faults :: "thrown option list"
  calls :: "call list"
  uuids :: nat

text \<open>The environment lets every coming external call through.\<close>

definition failure_free :: "world \<Rightarrow> bool" where
  "failure_free w = list_all (\<lambda>f. f = None) (faults w)"

type_synonym 'a io = "world \<Rightarrow> (thrown + 'a) \<times> world"

definition ret :: "'a \<Rightarrow> 'a io" where
  "ret x = (\<lambda>w. (Inr x, w))"

definition throw :: "thrown \<Rightarrow> 'a io" where
  "throw t = (\<lambda>w. (Inl t, w))"

text \<open>\<open>const x = await f; g(x)\<close>\<close>

definition bnd :: "'a io \<Rightarrow> ('a \<Rightarrow> 'b io) \<Rightarrow> 'b io" where
  "bnd f g = (\<lambda>w. case f w of (Inl t, w') \<Rightarrow> (Inl t, w') | (Inr x, w') \<Rightarrow> g x w')"

text \<open>\<open>try { f } catch (error) { h(error) }\<close>\<close>

definition try_catch :: "'a io \<Rightarrow> (thrown \<Rightarrow> 'a io) \<Rightarrow> 'a io" where
  "try_catch f h = (\<lambda>w. case f w of (Inl t, w') \<Rightarrow> h t w' | (Inr x, w') \<Rightarrow> (Inr x, w'))"

text \<open>An external call: it is recorded, and it throws if the environment says so.\<close>

definition external :: "call \<Rightarrow> unit io" where
  "external c = (\<lambda>w.
     let w' = w\<lparr> faults := tl (faults w), calls := calls w @ [c] \<rparr> in
     case faults w of
       Some t # _ \<Rightarrow> (Inl t, w')
     | _ \<Rightarrow> (Inr (), w'))"

definition randomUUID :: "rag_env \<Rightarrow> string io" where
  "randomUUID env = (\<lambda>w. (Inr (uuid env (uuids w)), w\<lparr> uuids := Suc (uuids w) \<rparr>))"

section \<open>The vector store\<close>

datatype query_filter = DocumentIdEq string

record query_result =
  qr_id :: string
  qr_score :: real
  qr_metadata :: metadata

fun matches :: "query_filter option \<Rightarrow> metadata \<Rightarrow> bool" where
  "matches None m = True"
| "matches (Some (DocumentIdEq d)) m = (md_documentId m = Some d)"

text \<open>
  Modelled from the spec: the vector stores (\<open>LibSQLVector\<close>, \<open>PgVector\<close>,
  \<open>QdrantVector\<close>) are libraries, not code of this repository. Their contract is the
  Storage Adapter's: \<open>query\<close> answers the stored records that pass the filter (and reach
  \<open>minScore\<close> when one is given), ordered by descending score and truncated to \<open>topK\<close>;
  \<open>upsert\<close> takes positionally aligned arrays of equal length and inserts or overwrites
  by id; \<open>deleteVector\<close> removes the record of an id, and an id that is not stored is a
  no-op.
\<close>

definition query_results ::
  "rag_env \<Rightarrow> entry list \<Rightarrow> vec \<Rightarrow> nat \<Rightarrow> query_filter option \<Rightarrow> real option \<Rightarrow> query_result list"
where
  "query_results env es qv topK flt minScore =
     take topK (sort_key (\<lambda>r. - qr_score r)
       (filter (\<lambda>r. matches flt (qr_metadata r) \<and>
                     (case minScore of None \<Rightarrow> True | Some m \<Rightarrow> m \<le> qr_score r))
          (map (\<lambda>e. \<lparr> qr_id = e_id e, qr_score = similarity env qv (e_vector e),
                       qr_metadata = e_metadata e \<rparr>) es)))"

definition vs_query ::
  "rag_env \<Rightarrow> string \<Rightarrow> vec \<Rightarrow> nat \<Rightarrow> query_filter option \<Rightarrow> real option \<Rightarrow> query_result list io"
where
  "vs_query env indexName qv topK flt minScore =
     bnd (external (Query indexName topK))
       (\<lambda>_ w. (Inr (query_results env (vectors w indexName) qv topK flt minScore), w))"

definition vs_deleteVector :: "string \<Rightarrow> string \<Rightarrow> unit io" where
  "vs_deleteVector indexName i =
     bnd (external (DeleteVector indexName i))
       (\<lambda>_ w. (Inr (), w\<lparr> vectors := (vectors w)
                  (indexName := filter (\<lambda>e. e_id e \<noteq> i) (vectors w indexName)) \<rparr>))"

fun upsert_entries :: "entry list \<Rightarrow> entry list \<Rightarrow> entry list" where
  "upsert_entries es [] = es"
| "upsert_entries es (n # ns) =
     upsert_entries (filter (\<lambda>e. e_id e \<noteq> e_id n) es @ [n]) ns"

fun draw_ids :: "rag_env \<Rightarrow> nat \<Rightarrow> nat \<Rightarrow> string list" where
  "draw_ids env k 0 = []"
| "draw_ids env k (Suc n) = uuid env k # draw_ids env (Suc k) n"

definition vs_upsert ::
  "rag_env \<Rightarrow> string \<Rightarrow> vec list \<Rightarrow> metadata list \<Rightarrow> string list option \<Rightarrow> unit io"
where
  "vs_upsert env indexName vs ms ids =
     bnd (external (Upsert indexName (length vs)))
       (\<lambda>_ w.
          let is = (case ids of Some is \<Rightarrow> is | None \<Rightarrow> draw_ids env (uuids w) (length vs)) in
          if length ms \<noteq> length vs \<or> length is \<noteq> length vs
          then (Inl (Error ''upsert: arrays of different length''), w)
          else (Inr (), w\<lparr> vectors := (vectors w)
                  (indexName := upsert_entries (vectors w indexName)
                     (map (\<lambda>(i, v, m). \<lparr> e_id = i, e_vector = v, e_metadata = m \<rparr>)
                        (zip is (zip vs ms)))),
                  uuids := (case ids of Some _ \<Rightarrow> uuids w | None \<Rightarrow> uuids w + length vs) \<rparr>))"

section \<open>The duplicate check service\<close>

record search_result =
  sr_id :: string
  sr_content :: string
  sr_metadata :: metadata
  sr_score :: real

record similar_document =
  sd_documentId :: string
  sd_content :: string
  sd_metadata :: metadata
  sd_score :: real
  sd_chunkId :: "string option"

record ai_decision =
  ai_action :: "jsval option"
  ai_reason :: jsval
  ai_targetDocumentId :: "string option"
  ai_confidence :: real

datatype duplicate_strategy = Semantic | ByMetadata | Hybrid

record duplicate_check_config =
  dc_enabled :: bool
  dc_threshold :: real
  dc_strategy :: duplicate_strategy
  dc_topK :: "nat option"

record duplicate_check_result =
  isDuplicate :: bool
  similarDocuments :: "similar_document list"
  decision :: "ai_decision option"
  dr_threshold :: real

record decision_context =
  dx_content :: string
  dx_metadata :: metadata
  dx_similarDocuments :: "similar_document list"
  dx_threshold :: real

text \<open>The body of the \<open>.map\<close> in \<open>checkForDuplicates\<close>.\<close>

definition toSimilarDocument :: "search_result \<Rightarrow> similar_document" where
  "toSimilarDocument result =
     \<lparr> sd_documentId = str_or (md_documentId (sr_metadata result)) (sr_id result),
       sd_content = sr_content result,
       sd_metadata = sr_metadata result,
       sd_score = sr_score result,
       sd_chunkId = Some (sr_id result) \<rparr>"

text \<open>
  The texts of the source are Japanese; the model names them. \<open>unset_label\<close> stands for
  the placeholder of a missing title, author or category.
\<close>

definition unset_label :: string where
  "unset_label = ''(unset)''"

definition reason_missing :: string where
  "reason_missing = ''(no reason was given)''"

definition reason_fallback :: string where
  "reason_fallback = ''(the AI decision failed; adding as new to be safe)''"

definition reason_default_add :: string where
  "reason_default_add = ''(added as new by AI decision)''"

text \<open>\<open>s.substring(0, 500)\<close> followed by \<open>"..."\<close> when \<open>s\<close> is longer.\<close>

definition excerpt :: "string \<Rightarrow> string" where
  "excerpt s = take 500 s @ (if length s > 500 then ''...'' else [])"

definition mkPreview :: "metadata \<Rightarrow> string \<Rightarrow> preview" where
  "mkPreview m content =
     \<lparr> pv_title = str_or (md_title m) unset_label,
       pv_author = str_or (md_author m) unset_label,
       pv_category = str_or (md_category m) unset_label,
       pv_content = excerpt content \<rparr>"

definition createAIDecisionPrompt :: "decision_context \<Rightarrow> prompt" where
  "createAIDecisionPrompt context =
     \<lparr> pr_newDocument = mkPreview (dx_metadata context) (dx_content context),
       pr_similarDocuments =
         map (\<lambda>doc. (sd_score doc, mkPreview (sd_metadata doc) (sd_content doc)))
           (dx_similarDocuments context),
       pr_threshold = dx_threshold context \<rparr>"

text \<open>
  \<open>getLanguageModel\<close> of the duplicate check service. Its \<open>default\<close> branch throws for
  a provider outside the three the type \<open>EmbeddingConfig\<close> admits.
\<close>

fun getLanguageModel :: "provider \<Rightarrow> string" where
  "getLanguageModel OpenAI = ''gpt-4o-mini''"
| "getLanguageModel Google = ''gemini-1.5-flash''"
| "getLanguageModel Anthropic = ''gpt-4o-mini''"

text \<open>
  \<open>text.match(/\{[\s\S]*\}/)\<close>: the match runs from the first opening brace to the
  last closing brace after it; there is none when either is missing.
\<close>

definition jsonMatch :: "string \<Rightarrow> string option" where
  "jsonMatch text =
     (let fromBrace = dropWhile (\<lambda>c. c \<noteq> CHR ''{'') text;
          toBrace = rev (dropWhile (\<lambda>c. c \<noteq> CHR ''}'') (rev fromBrace))
      in if toBrace = [] then None else Some toBrace)"

definition confidenceOf :: "jsval option \<Rightarrow> real" where
  "confidenceOf v = (case v of Some (JNum x) \<Rightarrow> x | _ \<Rightarrow> 0.7)"

definition reasonOf :: "jsval option \<Rightarrow> jsval" where
  "reasonOf v = (case v of Some r \<Rightarrow> if truthy r then r else JStr reason_missing
                 | None \<Rightarrow> JStr reason_missing)"

definition fallbackDecision :: ai_decision where
  "fallbackDecision =
     \<lparr> ai_action = Some (JStr ''add''), ai_reason = JStr reason_fallback,
       ai_targetDocumentId = None, ai_confidence = 0.5 \<rparr>"

definition makeAIDecision :: "rag_env \<Rightarrow> decision_context \<Rightarrow> ai_decision io" where
  "makeAIDecision env context =
     try_catch
       (let prompt = createAIDecisionPrompt context;
            model = getLanguageModel (ec_provider (embeddingConfig env))
        in bnd (external (GenerateText model))
          (\<lambda>_. case jsonMatch (generateText env model prompt) of
                  None \<Rightarrow> throw (Error ''no JSON in the AI answer'')
                | Some json \<Rightarrow>
                    (case JSON_parse env json of
                       None \<Rightarrow> throw (Error ''SyntaxError'')
                     | Some parsed \<Rightarrow>
                         ret \<lparr> ai_action = pa_action parsed,
                               ai_reason = reasonOf (pa_reason parsed),
                               ai_targetDocumentId = pa_targetDocumentId parsed,
                               ai_confidence = confidenceOf (pa_confidence parsed) \<rparr>)))
       (\<lambda>error. ret fallbackDecision)"

definition checkForDuplicates ::
  "rag_env \<Rightarrow> string \<Rightarrow> metadata \<Rightarrow> search_result list \<Rightarrow> duplicate_check_config
     \<Rightarrow> duplicate_check_result io"
where
  "checkForDuplicates env newContent newMetadata existingSearchResults config =
     (let similar = map toSimilarDocument
            (filter (\<lambda>result. sr_score result \<ge> dc_threshold config) existingSearchResults);
          dup = (length similar > 0)
      in if dup
         then bnd (makeAIDecision env
                     \<lparr> dx_content = newContent, dx_metadata = newMetadata,
                       dx_similarDocuments = similar, dx_threshold = dc_threshold config \<rparr>)
                (\<lambda>d. ret \<lparr> isDuplicate = dup, similarDocuments = similar,
                            decision = Some d, dr_threshold = dc_threshold config \<rparr>)
         else ret \<lparr> isDuplicate = dup, similarDocuments = similar,
                    decision = None, dr_threshold = dc_threshold config \<rparr>)"


section \<open>The RAG service on LibSQL\<close>

record document =
  doc_id :: string
  doc_content :: string
  doc_metadata :: metadata
  doc_createdAt :: nat
  doc_updatedAt :: nat

record chunk =
  ch_id :: string
  ch_documentId :: string
  ch_content :: string
  ch_metadata :: metadata

record search_options =
  so_topK :: "nat option"
  so_filter :: "query_filter option"
  so_includeMetadata :: "bool option"
  so_minScore :: "real option"

datatype add_action = Added | Updated | Skipped

text \<open>The four message texts of \<open>addDocumentWithDuplicateCheck\<close>, with the reason they quote.\<close>

datatype message =
    MsgSkipped jsval
  | MsgUpdated jsval
  | MsgAddedThoughSimilar jsval
  | MsgAddedNew

record add_document_result =
  ar_document :: document
  ar_duplicateCheck :: "duplicate_check_result option"
  ar_action :: add_action
  ar_message :: message

text \<open>\<open>s.includes(t)\<close>\<close>

fun starts_with :: "string \<Rightarrow> string \<Rightarrow> bool" where
  "starts_with s [] = True"
| "starts_with [] (c # t) = False"
| "starts_with (d # s) (c # t) = (d = c \<and> starts_with s t)"

fun str_includes :: "string \<Rightarrow> string \<Rightarrow> bool" where
  "str_includes [] t = (t = [])"
| "str_includes (c # s) t = (starts_with (c # s) t \<or> str_includes s t)"

text \<open>The decimal digits of a number, as a template literal prints it.\<close>

function show_nat :: "nat \<Rightarrow> string" where
  "show_nat n = (if n < 10 then [char_of (48 + n)]
                 else show_nat (n div 10) @ [char_of (48 + n mod 10)])"
  by pat_completeness auto
termination
  by (relation "measure id") auto

text \<open>\<open>...(dimensions && { dimensions })\<close>: a dimension of 0 is left out.\<close>

fun given_dims :: "nat option \<Rightarrow> nat option" where
  "given_dims None = None"
| "given_dims (Some n) = (if n = 0 then None else Some n)"

text \<open>
  \<open>getEmbeddingModel\<close> of \<open>RagService\<close> (and of \<open>PgVectorRagService\<close>): provider, model
  name and requested dimensions. Its \<open>default\<close> branch throws for a provider outside
  the three of the type.
\<close>

definition getEmbeddingModel :: "rag_env \<Rightarrow> provider \<times> string \<times> nat option" where
  "getEmbeddingModel env =
     (let c = embeddingConfig env in
      case ec_provider c of
        OpenAI \<Rightarrow> (OpenAI, ec_model c, given_dims (ec_dimensions c))
      | Anthropic \<Rightarrow> (OpenAI, ''text-embedding-3-small'', None)
      | Google \<Rightarrow> (Google, ec_model c, given_dims (ec_dimensions c)))"

definition getDefaultDimensions :: "rag_env \<Rightarrow> nat" where
  "getDefaultDimensions env =
     (let c = embeddingConfig env in
      case given_dims (ec_dimensions c) of
        Some d \<Rightarrow> d
      | None \<Rightarrow>
          (case ec_provider c of
             OpenAI \<Rightarrow>
               if str_includes (ec_model c) ''text-embedding-3-small'' then 1536
               else if str_includes (ec_model c) ''text-embedding-3-large'' then 3072
               else 1536
           | Google \<Rightarrow> 768
           | Anthropic \<Rightarrow> 1536))"

definition generateEmbeddings :: "rag_env \<Rightarrow> string list \<Rightarrow> vec list io" where
  "generateEmbeddings env texts =
     (let model = getEmbeddingModel env in
      bnd (external (EmbedMany texts)) (\<lambda>_. ret (map (embedText env model) texts)))"

definition generateQueryEmbedding :: "rag_env \<Rightarrow> string \<Rightarrow> vec io" where
  "generateQueryEmbedding env query =
     (let model = getEmbeddingModel env in
      bnd (external (Embed query)) (\<lambda>_. ret (embedText env model query)))"

text \<open>The body of the \<open>.map\<close> in \<open>searchDocuments\<close>.\<close>

definition toSearchResult :: "query_result \<Rightarrow> search_result" where
  "toSearchResult result =
     (let m = qr_metadata result in
      \<lparr> sr_id = str_or (md_chunkId m) (qr_id result),
        sr_content = str_or (md_text m) [],
        sr_metadata = m\<lparr> md_chunkIndex := Some (num_or (md_chunkIndex m) 0),
                          md_startPosition := Some (num_or (md_startPosition m) 0),
                          md_endPosition := Some (num_or (md_endPosition m) 0) \<rparr>,
        sr_score = qr_score result \<rparr>)"

definition searchDocuments ::
  "rag_env \<Rightarrow> string \<Rightarrow> string \<Rightarrow> search_options \<Rightarrow> search_result list io"
where
  "searchDocuments env query indexName options =
     try_catch
       (bnd (generateQueryEmbedding env query)
          (\<lambda>queryEmbedding.
             bnd (vs_query env indexName queryEmbedding (num_or (so_topK options) 5)
                    (so_filter options)
                    (Some (case so_minScore options of None \<Rightarrow> 0 | Some m \<Rightarrow> m)))
               (\<lambda>results. ret (map toSearchResult results))))
       (\<lambda>error. throw (RagError (''Failed to search documents: '' @ errorMessage error)
                          ''DOCUMENT_SEARCH_ERROR''))"

definition chunkDocument :: "rag_env \<Rightarrow> document \<Rightarrow> chunking_options \<Rightarrow> chunk list io" where
  "chunkDocument env doc options =
     (let request =
            \<lparr> cr_fromMarkdown = True,
              cr_strategy = (case co_strategy options of None \<Rightarrow> Markdown | Some s \<Rightarrow> s),
              cr_size = num_or (co_size options) 512,
              cr_overlap = num_or (co_overlap options) 50,
              cr_separator = (case co_separator options of
                                None \<Rightarrow> None
                              | Some s \<Rightarrow> if s = [] then None else Some s),
              cr_extractMetadata = None \<rparr>
      in bnd (external (Chunk (doc_content doc)))
           (\<lambda>_. ret (map (\<lambda>(index, p).
                        \<lparr> ch_id = doc_id doc @ ''_chunk_'' @ show_nat index,
                          ch_documentId = doc_id doc,
                          ch_content = pc_text p,
                          ch_metadata = (doc_metadata doc)
                            \<lparr> md_chunkIndex := Some index,
                              md_startPosition := Some 0,
                              md_endPosition := Some (length (pc_text p)) \<rparr> \<rparr>)
                      (enumerate 0 (splitText env request (doc_content doc))))))"

text \<open>The metadata records of the \<open>upsert\<close> in \<open>addDocument\<close> and \<open>updateDocument\<close>.\<close>

definition storedMetadata :: "document \<Rightarrow> chunk list \<Rightarrow> metadata list" where
  "storedMetadata doc chunks =
     map (\<lambda>(index, c). (ch_metadata c)
            \<lparr> md_text := Some (ch_content c),
              md_documentId := Some (doc_id doc),
              md_chunkId := Some (ch_id c),
              md_embedding_index := Some index \<rparr>)
       (enumerate 0 chunks)"

text \<open>The \<open>for\<close> loop of \<open>deleteDocumentChunks\<close>: one \<open>deleteVector\<close> per id, in order.\<close>

fun deleteEach :: "string \<Rightarrow> string list \<Rightarrow> unit io" where
  "deleteEach indexName [] = ret ()"
| "deleteEach indexName (i # is) =
     bnd (vs_deleteVector indexName i) (\<lambda>_. deleteEach indexName is)"

definition deleteDocumentChunks :: "rag_env \<Rightarrow> string \<Rightarrow> string \<Rightarrow> unit io" where
  "deleteDocumentChunks env documentId indexName =
     try_catch
       (bnd (vs_query env indexName (replicate (getDefaultDimensions env) 0) 1000
               (Some (DocumentIdEq documentId)) None)
          (\<lambda>results. deleteEach indexName (map qr_id results)))
       (\<lambda>error. ret ())"

definition updateDocument ::
  "rag_env \<Rightarrow> string \<Rightarrow> string option \<Rightarrow> metadata option \<Rightarrow> chunking_options \<Rightarrow> string
     \<Rightarrow> document io"
where
  "updateDocument env documentId content metadata chunkingOptions indexName =
     try_catch
       (bnd (deleteDocumentChunks env documentId indexName)
          (\<lambda>_.
             let doc = \<lparr> doc_id = documentId,
                         doc_content = str_or content [],
                         doc_metadata = (case metadata of None \<Rightarrow> empty_metadata | Some m \<Rightarrow> m)
                            \<lparr> md_updatedAt := Some (now env) \<rparr>,
                         doc_createdAt = now env,
                         doc_updatedAt = now env \<rparr>
             in if str_or content [] \<noteq> []
                then bnd (chunkDocument env doc chunkingOptions)
                       (\<lambda>chunks.
                          bnd (generateEmbeddings env (map ch_content chunks))
                            (\<lambda>embeddings.
                               bnd (vs_upsert env indexName embeddings
                                      (storedMetadata doc chunks) (Some (map ch_id chunks)))
                                 (\<lambda>_. ret doc)))
                else ret doc))
       (\<lambda>error. throw (RagError (''Failed to update document: '' @ errorMessage error)
                          ''DOCUMENT_UPDATE_ERROR''))"

definition deleteDocument :: "rag_env \<Rightarrow> string \<Rightarrow> string \<Rightarrow> unit io" where
  "deleteDocument env documentId indexName =
     try_catch (deleteDocumentChunks env documentId indexName)
       (\<lambda>error. throw (RagError (''Failed to delete document: '' @ errorMessage error)
                          ''DOCUMENT_DELETE_ERROR''))"

definition findExistingDocument :: "rag_env \<Rightarrow> string \<Rightarrow> string \<Rightarrow> document option io" where
  "findExistingDocument env content indexName =
     try_catch
       (bnd (searchDocuments env (take 100 content) indexName
               \<lparr> so_topK = Some 1, so_filter = None, so_includeMetadata = None,
                 so_minScore = None \<rparr>)
          (\<lambda>results.
             case results of
               [] \<Rightarrow> ret None
             | r # _ \<Rightarrow>
                 if sr_score r > 0.95
                 then ret (Some \<lparr> doc_id = str_or (md_documentId (sr_metadata r)) (sr_id r),
                                  doc_content = sr_content r,
                                  doc_metadata = sr_metadata r,
                                  doc_createdAt = now env,
                                  doc_updatedAt = now env \<rparr>)
                 else ret None))
       (\<lambda>error. ret None)"

definition addDocument ::
  "rag_env \<Rightarrow> string \<Rightarrow> metadata \<Rightarrow> chunking_options \<Rightarrow> string \<Rightarrow> document io"
where
  "addDocument env content metadata chunkingOptions indexName =
     try_catch
       (bnd (findExistingDocument env content indexName)
          (\<lambda>existingDoc.
             case existingDoc of
               Some existing \<Rightarrow>
                 updateDocument env (doc_id existing) (Some content) (Some metadata)
                   chunkingOptions indexName
             | None \<Rightarrow>
                 bnd (randomUUID env)
                   (\<lambda>newId.
                      let doc = \<lparr> doc_id = newId,
                                  doc_content = content,
                                  doc_metadata = metadata
                                    \<lparr> md_source := Some (str_or (md_source metadata) ''manual_input''),
                                      md_createdAt := Some (now env) \<rparr>,
                                  doc_createdAt = now env,
                                  doc_updatedAt = now env \<rparr>
                      in bnd (chunkDocument env doc chunkingOptions)
                           (\<lambda>chunks.
                              bnd (generateEmbeddings env (map ch_content chunks))
                                (\<lambda>embeddings.
                                   bnd (vs_upsert env indexName embeddings
                                          (storedMetadata doc chunks) (Some (map ch_id chunks)))
                                     (\<lambda>_. ret doc))))))
       (\<lambda>error. throw (RagError (''Failed to add document: '' @ errorMessage error)
                          ''DOCUMENT_ADD_ERROR''))"

definition createSkippedDocument :: "rag_env \<Rightarrow> string \<Rightarrow> metadata \<Rightarrow> document io" where
  "createSkippedDocument env content metadata =
     bnd (randomUUID env)
       (\<lambda>newId. ret \<lparr> doc_id = ''skipped-'' @ newId,
                      doc_content = content,
                      doc_metadata = metadata
                        \<lparr> md_source := Some (str_or (md_source metadata) ''manual_input''),
                          md_createdAt := Some (now env),
                          md_skipped := Some True \<rparr>,
                      doc_createdAt = now env,
                      doc_updatedAt = now env \<rparr>)"

text \<open>The body of the \<open>.map\<close> over \<open>existingResults\<close> in \<open>addDocumentWithDuplicateCheck\<close>.\<close>

definition toNeighbor :: "query_result \<Rightarrow> search_result" where
  "toNeighbor result =
     (let m = qr_metadata result in
      \<lparr> sr_id = qr_id result,
        sr_content = str_or (md_text m) [],
        sr_metadata = m\<lparr> md_chunkIndex := Some (num_or (md_chunkIndex m) 0),
                          md_startPosition := Some (num_or (md_startPosition m) 0),
                          md_endPosition := Some (num_or (md_endPosition m)
                             (num_or (map_option length (md_text m)) 0)) \<rparr>,
        sr_score = qr_score result \<rparr>)"

text \<open>
  The end of \<open>addDocumentWithDuplicateCheck\<close>, reached when no branch of the decision
  has returned: the ordinary \<open>addDocument\<close>, reported as \<open>added\<close>.
\<close>

definition addedMessage :: "duplicate_check_result option \<Rightarrow> message" where
  "addedMessage dup =
     (case dup of
        None \<Rightarrow> MsgAddedNew
      | Some r \<Rightarrow>
          if isDuplicate r
          then MsgAddedThoughSimilar
                 (case decision r of
                    None \<Rightarrow> JStr reason_default_add
                  | Some d \<Rightarrow> if truthy (ai_reason d) then ai_reason d
                              else JStr reason_default_add)
          else MsgAddedNew)"

definition ordinaryAdd ::
  "rag_env \<Rightarrow> string \<Rightarrow> metadata \<Rightarrow> chunking_options \<Rightarrow> string
     \<Rightarrow> duplicate_check_result option \<Rightarrow> add_document_result io"
where
  "ordinaryAdd env content metadata chunkingOptions indexName dup =
     bnd (addDocument env content metadata chunkingOptions indexName)
       (\<lambda>doc. ret \<lparr> ar_document = doc, ar_duplicateCheck = dup, ar_action = Added,
                    ar_message = addedMessage dup \<rparr>)"

definition addDocumentWithDuplicateCheck ::
  "rag_env \<Rightarrow> string \<Rightarrow> metadata \<Rightarrow> chunking_options \<Rightarrow> string
     \<Rightarrow> duplicate_check_config option \<Rightarrow> add_document_result io"
where
  "addDocumentWithDuplicateCheck env content metadata chunkingOptions indexName
       duplicateCheckConfig =
     try_catch
       (case duplicateCheckConfig of
          None \<Rightarrow> ordinaryAdd env content metadata chunkingOptions indexName None
        | Some config \<Rightarrow>
            if \<not> dc_enabled config
            then ordinaryAdd env content metadata chunkingOptions indexName None
            else
              bnd (generateQueryEmbedding env (take 1000 content))
                (\<lambda>queryEmbedding.
                   bnd (vs_query env indexName queryEmbedding (num_or (dc_topK config) 10)
                          None None)
                     (\<lambda>existingResults.
                        bnd (checkForDuplicates env content metadata
                               (map toNeighbor existingResults) config)
                          (\<lambda>dup.
                             case (if isDuplicate dup then decision dup else None) of
                               None \<Rightarrow>
                                 ordinaryAdd env content metadata chunkingOptions indexName
                                   (Some dup)
                             | Some d \<Rightarrow>
                                 if ai_action d = Some (JStr ''skip'')
                                 then bnd (createSkippedDocument env content metadata)
                                        (\<lambda>doc. ret \<lparr> ar_document = doc,
                                                     ar_duplicateCheck = Some dup,
                                                     ar_action = Skipped,
                                                     ar_message = MsgSkipped (ai_reason d) \<rparr>)
                                 else if ai_action d = Some (JStr ''update'')
                                         \<and> str_or (ai_targetDocumentId d) [] \<noteq> []
                                 then bnd (updateDocument env
                                             (str_or (ai_targetDocumentId d) [])
                                             (Some content) (Some metadata) chunkingOptions
                                             indexName)
                                        (\<lambda>doc. ret \<lparr> ar_document = doc,
                                                     ar_duplicateCheck = Some dup,
                                                     ar_action = Updated,
                                                     ar_message = MsgUpdated (ai_reason d) \<rparr>)
                                 else ordinaryAdd env content metadata chunkingOptions
                                        indexName (Some dup)))))
       (\<lambda>error. throw (RagError (''Failed to add document with duplicate check: ''
                                   @ errorMessage error)
                          ''DOCUMENT_ADD_WITH_DUPLICATE_CHECK_ERROR''))"

section \<open>Chunk deletion in the other two services\<close>

text \<open>
  \<open>PgVectorRagService\<close> repeats the text of \<open>RagService\<close> for \<open>deleteDocumentChunks\<close>
  and \<open>deleteDocument\<close>.
\<close>

definition pg_deleteDocumentChunks :: "rag_env \<Rightarrow> string \<Rightarrow> string \<Rightarrow> unit io" where
  "pg_deleteDocumentChunks env documentId indexName =
     try_catch
       (bnd (vs_query env indexName (replicate (getDefaultDimensions env) 0) 1000
               (Some (DocumentIdEq documentId)) None)
          (\<lambda>results. deleteEach indexName (map qr_id results)))
       (\<lambda>error. ret ())"

definition pg_deleteDocument :: "rag_env \<Rightarrow> string \<Rightarrow> string \<Rightarrow> unit io" where
  "pg_deleteDocument env documentId indexName =
     try_catch (pg_deleteDocumentChunks env documentId indexName)
       (\<lambda>error. throw (RagError (''Failed to delete document: '' @ errorMessage error)
                          ''DOCUMENT_DELETE_ERROR''))"

text \<open>\<open>QdrantRagService\<close> differs: its \<open>deleteDocumentChunks\<close> rethrows.\<close>

definition qd_getDefaultDimensions :: "rag_env \<Rightarrow> nat" where
  "qd_getDefaultDimensions env =
     (let c = embeddingConfig env in
      case given_dims (ec_dimensions c) of
        Some d \<Rightarrow> d
      | None \<Rightarrow>
          (case ec_provider c of
             OpenAI \<Rightarrow>
               if str_includes (ec_model c) ''text-embedding-3-small'' then 1536
               else if str_includes (ec_model c) ''text-embedding-3-large'' then 3072
               else 1536
           | Google \<Rightarrow> 768
           | Anthropic \<Rightarrow> 1024))"

definition qd_deleteDocumentChunks :: "rag_env \<Rightarrow> string \<Rightarrow> string \<Rightarrow> unit io" where
  "qd_deleteDocumentChunks env documentId indexName =
     try_catch
       (bnd (vs_query env indexName (replicate (qd_getDefaultDimensions env) 0) 10000
               (Some (DocumentIdEq documentId)) None)
          (\<lambda>results. deleteEach indexName (map qr_id results)))
       (\<lambda>error. throw (RagError (''Failed to delete document chunks: '' @ errorMessage error)
                          ''CHUNK_DELETE_ERROR''))"

definition qd_deleteDocument :: "rag_env \<Rightarrow> string \<Rightarrow> string \<Rightarrow> unit io" where
  "qd_deleteDocument env documentId indexName =
     try_catch (qd_deleteDocumentChunks env documentId indexName)
       (\<lambda>error. throw (RagError (''Failed to delete document: '' @ errorMessage error)
                          ''DOCUMENT_DELETE_ERROR''))"

definition qd_getEmbeddingModel :: "rag_env \<Rightarrow> (provider \<times> string \<times> nat option) io" where
  "qd_getEmbeddingModel env =
     (let c = embeddingConfig env in
      case ec_provider c of
        OpenAI \<Rightarrow> ret (OpenAI, ec_model c, None)
      | Google \<Rightarrow> ret (Google, ec_model c, None)
      | Anthropic \<Rightarrow> throw (RagError ''Unsupported embedding provider: anthropic''
                              ''UNSUPPORTED_PROVIDER''))"

definition qd_generateEmbeddings :: "rag_env \<Rightarrow> string list \<Rightarrow> vec list io" where
  "qd_generateEmbeddings env texts =
     bnd (qd_getEmbeddingModel env)
       (\<lambda>model. bnd (external (EmbedMany texts)) (\<lambda>_. ret (map (embedText env model) texts)))"

text \<open>Each chunk of \<open>QdrantRagService\<close> draws its id from \<open>randomUUID\<close>.\<close>

fun qd_chunks :: "rag_env \<Rightarrow> document \<Rightarrow> (nat \<times> piece) list \<Rightarrow> chunk list io" where
  "qd_chunks env doc [] = ret []"
| "qd_chunks env doc ((index, p) # rest) =
     bnd (randomUUID env)
       (\<lambda>newId.
          bnd (qd_chunks env doc rest)
            (\<lambda>cs. ret (\<lparr> ch_id = newId,
                          ch_documentId = doc_id doc,
                          ch_content = pc_text p,
                          ch_metadata = (doc_metadata doc)
                            \<lparr> md_chunkIndex := Some index,
                              md_startPosition := Some (num_or (pc_startIndex p) 0),
                              md_endPosition := Some (num_or (pc_endIndex p)
                                                        (length (pc_text p))) \<rparr> \<rparr> # cs)))"

definition qd_chunkDocument :: "rag_env \<Rightarrow> document \<Rightarrow> chunking_options \<Rightarrow> chunk list io" where
  "qd_chunkDocument env doc options =
     (let request =
            \<lparr> cr_fromMarkdown = False,
              cr_strategy = (case co_strategy options of None \<Rightarrow> Recursive | Some s \<Rightarrow> s),
              cr_size = num_or (co_size options) 512,
              cr_overlap = num_or (co_overlap options) 50,
              cr_separator = co_separator options,
              cr_extractMetadata =
                Some (case co_extractMetadata options of None \<Rightarrow> True | Some b \<Rightarrow> b) \<rparr>
      in bnd (external (Chunk (doc_content doc)))
           (\<lambda>_. qd_chunks env doc (enumerate 0 (splitText env request (doc_content doc)))))"

definition qd_updateDocument ::
  "rag_env \<Rightarrow> string \<Rightarrow> string option \<Rightarrow> metadata option \<Rightarrow> chunking_options \<Rightarrow> string
     \<Rightarrow> document io"
where
  "qd_updateDocument env documentId content metadata chunkingOptions indexName =
     try_catch
       (bnd (qd_deleteDocumentChunks env documentId indexName)
          (\<lambda>_.
             let doc = \<lparr> doc_id = documentId,
                         doc_content = str_or content [],
                         doc_metadata = (case metadata of None \<Rightarrow> empty_metadata | Some m \<Rightarrow> m)
                            \<lparr> md_updatedAt := Some (now env) \<rparr>,
                         doc_createdAt = now env,
                         doc_updatedAt = now env \<rparr>
             in if str_or content [] \<noteq> []
                then bnd (qd_chunkDocument env doc chunkingOptions)
                       (\<lambda>chunks.
                          bnd (qd_generateEmbeddings env (map ch_content chunks))
                            (\<lambda>embeddings.
                               bnd (vs_upsert env indexName embeddings
                                      (storedMetadata doc chunks) None)
                                 (\<lambda>_. ret doc)))
                else ret doc))
       (\<lambda>error. throw (RagError (''Failed to update document: '' @ errorMessage error)
                          ''DOCUMENT_UPDATE_ERROR''))"

section \<open>The chunks of a document\<close>

text \<open>The chunks stored under a document id: the records of the index whose metadata
  carries that \<open>documentId\<close>, the ones a query filtered by document id selects from.\<close>

definition documentChunks :: "world \<Rightarrow> string \<Rightarrow> string \<Rightarrow> entry list" where
  "documentChunks w indexName documentId =
     filter (\<lambda>e. md_documentId (e_metadata e) = Some documentId) (vectors w indexName)"

section \<open>A sample environment\<close>

text \<open>A small environment and world on which the operations can be run. The sample store
  ranks a stored vector by its first component, so a score can be read off the entry.\<close>

definition demo_env :: rag_env where
  "demo_env =
     \<lparr> embeddingConfig = \<lparr> ec_provider = OpenAI, ec_model = ''text-embedding-3-small'',
                             ec_apiKey = ''key'', ec_dimensions = None \<rparr>,
       embedText = (\<lambda>model s. [1]),
       splitText = (\<lambda>request s. if s = [] then []
                      else [\<lparr> pc_text = s, pc_startIndex = None, pc_endIndex = None \<rparr>]),
       generateText = (\<lambda>model p. ''I cannot decide''),
       JSON_parse = (\<lambda>s. None),
       similarity = (\<lambda>q v. case v of [] \<Rightarrow> 0 | x # _ \<Rightarrow> x),
       uuid = (\<lambda>n. replicate (Suc n) CHR ''u''),
       now = 0 \<rparr>"

definition demo_world :: "entry list \<Rightarrow> thrown option list \<Rightarrow> world" where
  "demo_world es fs =
     \<lparr> vectors = (\<lambda>indexName. if indexName = ''documents'' then es else []),
       faults = fs, calls = [], uuids = 0 \<rparr>"

definition demo_result :: "string \<Rightarrow> string option \<Rightarrow> real \<Rightarrow> search_result" where
  "demo_result i d s =
     \<lparr> sr_id = i, sr_content = ''text'', sr_metadata = empty_metadata\<lparr> md_documentId := d \<rparr>,
       sr_score = s \<rparr>"

definition demo_config :: duplicate_check_config where
  "demo_config = \<lparr> dc_enabled = True, dc_threshold = (9/10), dc_strategy = Semantic,
                    dc_topK = None \<rparr>"

definition no_options :: chunking_options where
  "no_options = \<lparr> co_strategy = None, co_size = None, co_overlap = None,
                   co_separator = None, co_extractMetadata = None \<rparr>"

definition demo_entry :: "string \<Rightarrow> string \<Rightarrow> real \<Rightarrow> entry" where
  "demo_entry i d s =
     \<lparr> e_id = i, e_vector = [s],
       e_metadata = empty_metadata\<lparr> md_text := Some ''stored text'', md_documentId := Some d,
                                     md_chunkId := Some i \<rparr> \<rparr>"

text \<open>A document of \<open>n\<close> stored chunks, with ids of lengths 1 to \<open>n\<close>.\<close>

definition chunk_name :: "nat \<Rightarrow> string" where
  "chunk_name k = replicate (Suc k) CHR ''c''"

definition many_chunks :: "nat \<Rightarrow> entry list" where
  "many_chunks n = map (\<lambda>k. demo_entry (chunk_name k) ''doc-1'' 1) [0..<n]"

text \<open>The sample environment with a language model whose answer holds a JSON object
  that parses to the given fields.\<close>

definition demo_env_answering :: "parsed_answer \<Rightarrow> rag_env" where
  "demo_env_answering answer =
     demo_env\<lparr> generateText := (\<lambda>model p. ''My answer: {}''),
               JSON_parse := (\<lambda>s. Some answer) \<rparr>"

definition answer_of :: "string \<Rightarrow> parsed_answer" where
  "answer_of a = \<lparr> pa_action = Some (JStr a), pa_reason = Some (JStr ''because''),
                   pa_targetDocumentId = None, pa_confidence = Some (JNum (9/10)) \<rparr>"

section \<open>Properties\<close>

subsection \<open>Running an operation\<close>

lemma bnd_apply: "bnd f g w = (case f w of (Inl t, w') \<Rightarrow> (Inl t, w') | (Inr x, w') \<Rightarrow> g x w')"
  by (simp add: bnd_def)

lemma try_catch_apply:
  "try_catch f h w = (case f w of (Inl t, w') \<Rightarrow> h t w' | (Inr x, w') \<Rightarrow> (Inr x, w'))"
  by (simp add: try_catch_def)

lemma ret_apply: "ret x w = (Inr x, w)"
  by (simp add: ret_def)

lemma throw_apply: "throw t w = (Inl t, w)"
  by (simp add: throw_def)

lemmas io_simps = bnd_apply try_catch_apply ret_apply throw_apply

lemma makeAIDecision_returns: "\<exists>d w'. makeAIDecision env context w = (Inr d, w')"
  by (auto simp: makeAIDecision_def io_simps Let_def split: prod.splits sum.splits option.splits)

lemma checkForDuplicates_shape:
  "\<exists>d w'. checkForDuplicates env c m rs cfg w =
     (Inr \<lparr> isDuplicate = (\<exists>x\<in>set rs. dc_threshold cfg \<le> sr_score x),
            similarDocuments = map toSimilarDocument (filter (\<lambda>x. dc_threshold cfg \<le> sr_score x) rs),
            decision = d, dr_threshold = dc_threshold cfg \<rparr>, w')"
proof (cases "filter (\<lambda>x. dc_threshold cfg \<le> sr_score x) rs = []")
  case True
  then have "\<not> (\<exists>x\<in>set rs. dc_threshold cfg \<le> sr_score x)"
    by (simp add: filter_empty_conv)
  with True show ?thesis
    by (simp add: checkForDuplicates_def io_simps Let_def)
next
  case False
  then have ex: "\<exists>x\<in>set rs. dc_threshold cfg \<le> sr_score x"
    by (simp add: filter_empty_conv)
  obtain d w' where "makeAIDecision env
            \<lparr> dx_content = c, dx_metadata = m,
              dx_similarDocuments = map toSimilarDocument (filter (\<lambda>x. dc_threshold cfg \<le> sr_score x) rs),
              dx_threshold = dc_threshold cfg \<rparr> w = (Inr d, w')"
    using makeAIDecision_returns by blast
  with False ex show ?thesis
    by (simp add: checkForDuplicates_def io_simps Let_def)
qed

lemma returnsE:
  assumes "\<not> isl (fst r)"
  obtains x w where "r = (Inr x, w)" and "x = projr (fst r)" and "w = snd r"
  using assms by (cases r, cases "fst r") auto

subsection \<open>Chunk deletion when no external call fails\<close>

lemma failure_free_rest [simp]:
  "failure_free w \<Longrightarrow> failure_free (w\<lparr> faults := tl (faults w), calls := c \<rparr>)"
  "failure_free w \<Longrightarrow> failure_free (w\<lparr> vectors := v, faults := tl (faults w), calls := c \<rparr>)"
  by (cases "faults w"; simp add: failure_free_def)+

lemma external_nofault:
  "failure_free w \<Longrightarrow>
   external c w = (Inr (), w\<lparr> faults := tl (faults w), calls := calls w @ [c] \<rparr>)"
  by (cases "faults w") (auto simp: external_def failure_free_def)

lemma vs_query_nofault:
  "failure_free w \<Longrightarrow>
   vs_query env indexName qv k flt m w =
     (Inr (query_results env (vectors w indexName) qv k flt m),
      w\<lparr> faults := tl (faults w), calls := calls w @ [Query indexName k] \<rparr>)"
  by (simp add: vs_query_def bnd_apply external_nofault)

lemma vs_deleteVector_nofault:
  "failure_free w \<Longrightarrow>
   vs_deleteVector indexName i w =
     (Inr (), w\<lparr> vectors := (vectors w)
                  (indexName := filter (\<lambda>e. e_id e \<noteq> i) (vectors w indexName)),
               faults := tl (faults w),
               calls := calls w @ [DeleteVector indexName i] \<rparr>)"
  by (simp add: vs_deleteVector_def bnd_apply external_nofault)

lemma deleteEach_nofault:
  "failure_free w \<Longrightarrow>
   deleteEach indexName ids w =
     (Inr (), w\<lparr> vectors := (vectors w)
                  (indexName := filter (\<lambda>e. e_id e \<notin> set ids) (vectors w indexName)),
               faults := drop (length ids) (faults w),
               calls := calls w @ map (DeleteVector indexName) ids \<rparr>)"
proof (induction ids arbitrary: w)
  case Nil
  then show ?case by (simp add: ret_apply)
next
  case (Cons i ids)
  let ?w1 = "w\<lparr> vectors := (vectors w)
                  (indexName := filter (\<lambda>e. e_id e \<noteq> i) (vectors w indexName)),
               faults := tl (faults w),
               calls := calls w @ [DeleteVector indexName i] \<rparr>"
  have "failure_free ?w1" using Cons.prems by simp
  from Cons.IH [OF this] Cons.prems show ?case
    by (simp add: bnd_apply vs_deleteVector_nofault fun_eq_iff drop_Suc)
qed

lemma query_results_ids:
  assumes "length (filter (\<lambda>e. md_documentId (e_metadata e) = Some d) es) \<le> k"
  shows "set (map qr_id (query_results env es qv k (Some (DocumentIdEq d)) None)) =
         e_id ` {e \<in> set es. md_documentId (e_metadata e) = Some d}"
proof -
  let ?g = "\<lambda>e. \<lparr> qr_id = e_id e, qr_score = similarity env qv (e_vector e),
                    qr_metadata = e_metadata e \<rparr>"
  let ?hits = "filter (\<lambda>r. md_documentId (qr_metadata r) = Some d) (map ?g es)"
  have hits: "?hits = map ?g (filter (\<lambda>e. md_documentId (e_metadata e) = Some d) es)"
    by (simp add: filter_map comp_def)
  then have "length ?hits \<le> k" using assms by simp
  then have "query_results env es qv k (Some (DocumentIdEq d)) None
              = sort_key (\<lambda>r. - qr_score r) ?hits"
    by (simp add: query_results_def)
  then have "set (map qr_id (query_results env es qv k (Some (DocumentIdEq d)) None))
              = qr_id ` set ?hits"
    by simp
  also have "\<dots> = e_id ` {e \<in> set es. md_documentId (e_metadata e) = Some d}"
    unfolding hits by (auto simp: image_iff)
  finally show ?thesis .
qed

lemma query_results_none:
  assumes "filter (\<lambda>e. md_documentId (e_metadata e) = Some d) es = []"
  shows "query_results env es qv k (Some (DocumentIdEq d)) None = []"
proof -
  have "filter (\<lambda>r. md_documentId (qr_metadata r) = Some d)
          (map (\<lambda>e. \<lparr> qr_id = e_id e, qr_score = similarity env qv (e_vector e),
                    qr_metadata = e_metadata e \<rparr>) es) = []"
    using assms by (simp add: filter_map comp_def)
  then show ?thesis by (simp add: query_results_def)
qed

lemma deleteDocumentChunks_nofault:
  assumes "failure_free w"
  shows "deleteDocumentChunks env d indexName w =
     (Inr (), w\<lparr> vectors := (vectors w)
                  (indexName := filter (\<lambda>e. e_id e \<notin> set (map qr_id
                      (query_results env (vectors w indexName)
                         (replicate (getDefaultDimensions env) 0) 1000
                         (Some (DocumentIdEq d)) None)))
                    (vectors w indexName)),
               faults := drop (Suc (length (query_results env (vectors w indexName)
                         (replicate (getDefaultDimensions env) 0) 1000
                         (Some (DocumentIdEq d)) None))) (faults w),
               calls := calls w @ Query indexName 1000 # map (DeleteVector indexName)
                  (map qr_id (query_results env (vectors w indexName)
                         (replicate (getDefaultDimensions env) 0) 1000
                         (Some (DocumentIdEq d)) None)) \<rparr>)"
proof -
  let ?w1 = "w\<lparr> faults := tl (faults w), calls := calls w @ [Query indexName 1000] \<rparr>"
  have "failure_free ?w1" using assms by simp
  from deleteEach_nofault [OF this] assms show ?thesis
    by (simp add: deleteDocumentChunks_def try_catch_apply bnd_apply vs_query_nofault drop_Suc)
qed

lemma failure_free_drop:
  "failure_free w \<Longrightarrow> failure_free (w\<lparr> vectors := v, faults := drop n (faults w), calls := c \<rparr>)"
  by (auto simp: failure_free_def list_all_iff dest: in_set_dropD)

lemma deleteDocumentChunks_clears:
  assumes "failure_free w" and "length (documentChunks w indexName d) \<le> 1000"
  shows "\<exists>w'. deleteDocumentChunks env d indexName w = (Inr (), w')
           \<and> documentChunks w' indexName d = [] \<and> failure_free w'
           \<and> uuids w' = uuids w
           \<and> calls w' = calls w @ Query indexName 1000 # map (DeleteVector indexName)
                  (map qr_id (query_results env (vectors w indexName)
                         (replicate (getDefaultDimensions env) 0) 1000
                         (Some (DocumentIdEq d)) None))"
proof -
  let ?ids = "map qr_id (query_results env (vectors w indexName)
                         (replicate (getDefaultDimensions env) 0) 1000
                         (Some (DocumentIdEq d)) None)"
  have ids: "set ?ids = e_id ` {e \<in> set (vectors w indexName). md_documentId (e_metadata e) = Some d}"
    using assms(2) unfolding documentChunks_def by (rule query_results_ids)
  have "filter (\<lambda>e. md_documentId (e_metadata e) = Some d)
          (filter (\<lambda>e. e_id e \<notin> set ?ids) (vectors w indexName)) = []"
    unfolding ids by (auto simp: filter_empty_conv)
  then show ?thesis
    using assms(1)
    by (simp add: deleteDocumentChunks_nofault [OF assms(1)] documentChunks_def
          failure_free_drop)
qed

lemma deleteDocumentChunks_returns:
  "deleteDocumentChunks env d indexName w = (Inr (), snd (deleteDocumentChunks env d indexName w))"
  by (simp add: deleteDocumentChunks_def try_catch_apply ret_apply
          split: prod.splits sum.splits)

lemma updateDocument_without_content:
  "updateDocument env d None metadata chunkingOptions indexName w =
     (Inr \<lparr> doc_id = d, doc_content = [],
            doc_metadata = (case metadata of None \<Rightarrow> empty_metadata | Some m \<Rightarrow> m)
                              \<lparr> md_updatedAt := Some (now env) \<rparr>,
            doc_createdAt = now env, doc_updatedAt = now env \<rparr>,
      snd (deleteDocumentChunks env d indexName w))"
proof -
  obtain v where "deleteDocumentChunks env d indexName w = (Inr (), v)"
    using deleteDocumentChunks_returns by blast
  then show ?thesis
    by (simp add: updateDocument_def try_catch_apply bnd_apply ret_apply)
qed

lemma deleteDocument_is_deleteDocumentChunks:
  "deleteDocument env d indexName w = deleteDocumentChunks env d indexName w"
proof -
  obtain v where "deleteDocumentChunks env d indexName w = (Inr (), v)"
    using deleteDocumentChunks_returns by blast
  then show ?thesis
    by (simp add: deleteDocument_def try_catch_apply)
qed

lemma many_chunks_query:
  "query_results demo_env (many_chunks 1001) qv 1000 (Some (DocumentIdEq ''doc-1'')) None =
     map (\<lambda>e. \<lparr> qr_id = e_id e, qr_score = 1, qr_metadata = e_metadata e \<rparr>) (many_chunks 1000)"
proof -
  let ?g = "\<lambda>e. \<lparr> qr_id = e_id e, qr_score = similarity demo_env qv (e_vector e),
                    qr_metadata = e_metadata e \<rparr>"
  let ?h = "\<lambda>e. \<lparr> qr_id = e_id e, qr_score = (1::real), qr_metadata = e_metadata e \<rparr>"
  have g: "map ?g (many_chunks n) = map ?h (many_chunks n)" for n
    by (simp add: many_chunks_def demo_entry_def demo_env_def)
  have all: "filter (\<lambda>r. md_documentId (qr_metadata r) = Some ''doc-1'') (map ?h (many_chunks n))
              = map ?h (many_chunks n)" for n
    by (simp add: many_chunks_def demo_entry_def filter_map comp_def)
  have sorted: "sort_key (\<lambda>r. - qr_score r) (map ?h (many_chunks n)) = map ?h (many_chunks n)" for n
    by (rule sort_key_id_if_sorted) (simp add: comp_def map_replicate_const)
  have "take 1000 (map ?h (many_chunks 1001)) = map ?h (many_chunks 1000)"
    by (simp add: many_chunks_def take_map)
  then show ?thesis
    by (simp add: query_results_def g all sorted)
qed


lemma many_chunks_left:
  assumes "failure_free w" and "vectors w ''documents'' = many_chunks 1001"
  shows "vectors (snd (deleteDocumentChunks demo_env ''doc-1'' ''documents'' w)) ''documents'' =
           [demo_entry (chunk_name 1000) ''doc-1'' 1]"
proof -
  have ids: "e_id ` set (many_chunks 1000) = (\<lambda>k. chunk_name k) ` {0..<1000}"
    by (simp add: many_chunks_def demo_entry_def image_image)
  have inj: "(chunk_name k \<in> (\<lambda>k. chunk_name k) ` {0..<1000}) = (k < 1000)" for k
  proof
    assume "chunk_name k \<in> (\<lambda>k. chunk_name k) ` {0..<1000}"
    then obtain j where "j < 1000" and "chunk_name k = chunk_name j" by auto
    then have "length (chunk_name k) = length (chunk_name j)" by simp
    with \<open>j < 1000\<close> show "k < 1000" by (simp add: chunk_name_def)
  next
    assume "k < 1000" then show "chunk_name k \<in> (\<lambda>k. chunk_name k) ` {0..<1000}"
      by auto
  qed
  have split: "[0..<1001] = [0..<1000] @ [1000]"
    using upt_Suc_append [of 0 1000] by simp
  have "filter (\<lambda>e. e_id e \<notin> (\<lambda>k. chunk_name k) ` {0..<1000}) (many_chunks 1001)
          = map (\<lambda>k. demo_entry (chunk_name k) ''doc-1'' 1)
              (filter (\<lambda>k. \<not> k < 1000) [0..<1001])"
    by (simp add: many_chunks_def filter_map comp_def demo_entry_def inj)
  also have "filter (\<lambda>k. \<not> k < 1000) [0..<1001] = [1000::nat]"
    unfolding split by simp
  finally have left: "filter (\<lambda>e. e_id e \<notin> (\<lambda>k. chunk_name k) ` {0..<1000}) (many_chunks 1001)
          = [demo_entry (chunk_name 1000) ''doc-1'' 1]"
    by simp
  show ?thesis
    using left by (simp add: deleteDocumentChunks_nofault [OF assms(1)] assms(2) many_chunks_query ids)
qed

subsection \<open>What each step does to the world\<close>

lemma external_effect:
  "external c w = (r, w') \<Longrightarrow>
     vectors w' = vectors w \<and> calls w' = calls w @ [c] \<and> uuids w' = uuids w
     \<and> faults w' = tl (faults w)"
  by (auto simp: external_def Let_def split: list.splits option.splits)

lemma generateQueryEmbedding_effect:
  "generateQueryEmbedding env q w = (r, w') \<Longrightarrow>
     vectors w' = vectors w \<and> calls w' = calls w @ [Embed q] \<and> uuids w' = uuids w
     \<and> faults w' = tl (faults w)"
  by (auto simp: generateQueryEmbedding_def Let_def bnd_apply ret_apply
           split: prod.splits sum.splits dest: external_effect)

lemma vs_query_effect:
  "vs_query env indexName qv k flt m w = (r, w') \<Longrightarrow>
     vectors w' = vectors w \<and> calls w' = calls w @ [Query indexName k] \<and> uuids w' = uuids w
     \<and> faults w' = tl (faults w)"
  by (auto simp: vs_query_def bnd_apply split: prod.splits sum.splits dest: external_effect)

lemma makeAIDecision_effect:
  "makeAIDecision env context w = (r, w') \<Longrightarrow>
     vectors w' = vectors w
     \<and> calls w' = calls w @ [GenerateText (getLanguageModel (ec_provider (embeddingConfig env)))]
     \<and> uuids w' = uuids w \<and> faults w' = tl (faults w)"
  by (auto simp: makeAIDecision_def Let_def io_simps
           split: prod.splits sum.splits option.splits dest: external_effect)

lemma checkForDuplicates_effect:
  assumes "checkForDuplicates env c m rs cfg w = (Inr dup, w')" and "isDuplicate dup"
  shows "vectors w' = vectors w
     \<and> calls w' = calls w @ [GenerateText (getLanguageModel (ec_provider (embeddingConfig env)))]
     \<and> uuids w' = uuids w \<and> faults w' = tl (faults w)"
  using assms
  by (auto simp: checkForDuplicates_def Let_def io_simps
           split: if_splits prod.splits sum.splits dest: makeAIDecision_effect)

lemma makeAIDecision_fallback:
  assumes "(\<exists>t rest. faults w = Some t # rest)
         \<or> (case jsonMatch (generateText env (getLanguageModel (ec_provider (embeddingConfig env)))
                              (createAIDecisionPrompt context)) of
               None \<Rightarrow> True
             | Some json \<Rightarrow> JSON_parse env json = None)"
  shows "makeAIDecision env context w =
           (Inr fallbackDecision,
            w\<lparr> faults := tl (faults w),
               calls := calls w @ [GenerateText (getLanguageModel (ec_provider (embeddingConfig env)))] \<rparr>)"
  using assms
  by (auto simp: makeAIDecision_def Let_def io_simps external_def
           split: list.splits option.splits)

lemma addDocumentWithDuplicateCheck_after_check:
  assumes "dc_enabled config"
      and "generateQueryEmbedding env (take 1000 content) w = (Inr qe, w1)"
      and "vs_query env indexName qe (num_or (dc_topK config) 10) None None w1 = (Inr existing, w2)"
      and "checkForDuplicates env content metadata (map toNeighbor existing) config w2 = (Inr dup, w3)"
  shows "addDocumentWithDuplicateCheck env content metadata chunkingOptions indexName (Some config) w =
     try_catch
       (case (if isDuplicate dup then decision dup else None) of
          None \<Rightarrow> ordinaryAdd env content metadata chunkingOptions indexName (Some dup)
        | Some d \<Rightarrow>
            if ai_action d = Some (JStr ''skip'')
            then bnd (createSkippedDocument env content metadata)
                   (\<lambda>doc. ret \<lparr> ar_document = doc, ar_duplicateCheck = Some dup,
                                ar_action = Skipped, ar_message = MsgSkipped (ai_reason d) \<rparr>)
            else if ai_action d = Some (JStr ''update'') \<and> str_or (ai_targetDocumentId d) [] \<noteq> []
            then bnd (updateDocument env (str_or (ai_targetDocumentId d) []) (Some content)
                        (Some metadata) chunkingOptions indexName)
                   (\<lambda>doc. ret \<lparr> ar_document = doc, ar_duplicateCheck = Some dup,
                                ar_action = Updated, ar_message = MsgUpdated (ai_reason d) \<rparr>)
            else ordinaryAdd env content metadata chunkingOptions indexName (Some dup))
       (\<lambda>error. throw (RagError (''Failed to add document with duplicate check: ''
                                   @ errorMessage error)
                          ''DOCUMENT_ADD_WITH_DUPLICATE_CHECK_ERROR'')) w3"
  using assms by (simp add: addDocumentWithDuplicateCheck_def io_simps)

lemma ordinaryAdd_wrapped:
  "try_catch (ordinaryAdd env content metadata chunkingOptions indexName dup)
       (\<lambda>error. throw (RagError (''Failed to add document with duplicate check: ''
                                   @ errorMessage error)
                          ''DOCUMENT_ADD_WITH_DUPLICATE_CHECK_ERROR'')) w =
   (case addDocument env content metadata chunkingOptions indexName w of
      (Inr doc, w') \<Rightarrow>
        (Inr \<lparr> ar_document = doc, ar_duplicateCheck = dup, ar_action = Added,
               ar_message = addedMessage dup \<rparr>, w')
    | (Inl error, w') \<Rightarrow>
        (Inl (RagError (''Failed to add document with duplicate check: '' @ errorMessage error)
                ''DOCUMENT_ADD_WITH_DUPLICATE_CHECK_ERROR''), w'))"
  by (simp add: ordinaryAdd_def io_simps split: prod.splits sum.splits)

lemma findExistingDocument_effect:
  "findExistingDocument env content indexName w = (r, w') \<Longrightarrow>
     vectors w' = vectors w \<and> uuids w' = uuids w"
  by (auto simp: findExistingDocument_def searchDocuments_def io_simps
           split: prod.splits sum.splits list.splits if_splits
           dest!: generateQueryEmbedding_effect vs_query_effect)

lemma addDocument_fresh:
  assumes "findExistingDocument env content indexName w = (Inr None, w1)"
      and "addDocument env content metadata chunkingOptions indexName w = (Inr doc, w')"
  shows "doc_id doc = uuid env (uuids w1)
       \<and> (\<exists>texts. calls w' = calls w1 @ [Chunk content, EmbedMany texts,
                                          Upsert indexName (length texts)])"
  using assms
  by (auto simp: addDocument_def randomUUID_def chunkDocument_def generateEmbeddings_def
                 vs_upsert_def io_simps Let_def
           split: prod.splits sum.splits if_splits
           dest!: external_effect)

lemma searchDocuments_effect:
  "searchDocuments env q indexName options w = (r, w') \<Longrightarrow>
     vectors w' = vectors w \<and> uuids w' = uuids w"
  by (auto simp: searchDocuments_def io_simps
           split: prod.splits sum.splits
           dest!: generateQueryEmbedding_effect vs_query_effect)

lemma vs_deleteVector_uuids:
  "vs_deleteVector indexName i w = (r, w') \<Longrightarrow> uuids w' = uuids w"
  by (auto simp: vs_deleteVector_def bnd_apply split: prod.splits sum.splits
           dest!: external_effect)

lemma deleteEach_uuids:
  "deleteEach indexName ids w = (r, w') \<Longrightarrow> uuids w' = uuids w"
proof (induction ids arbitrary: w)
  case Nil
  then show ?case by (simp add: ret_apply)
next
  case (Cons i ids)
  then show ?case
    by (auto simp: bnd_apply split: prod.splits sum.splits dest!: vs_deleteVector_uuids)
qed

lemma deleteDocumentChunks_uuids:
  "deleteDocumentChunks env d indexName w = (r, w') \<Longrightarrow> uuids w' = uuids w"
  by (auto simp: deleteDocumentChunks_def io_simps split: prod.splits sum.splits
           dest!: vs_query_effect deleteEach_uuids)

lemma chunkDocument_uuids:
  "chunkDocument env doc options w = (r, w') \<Longrightarrow> uuids w' = uuids w"
  by (auto simp: chunkDocument_def io_simps Let_def split: prod.splits sum.splits
           dest!: external_effect)

lemma generateEmbeddings_uuids:
  "generateEmbeddings env texts w = (r, w') \<Longrightarrow> uuids w' = uuids w"
  by (auto simp: generateEmbeddings_def io_simps Let_def split: prod.splits sum.splits
           dest!: external_effect)

lemma vs_upsert_uuids:
  "vs_upsert env indexName vs ms (Some ids) w = (r, w') \<Longrightarrow> uuids w' = uuids w"
  by (auto simp: vs_upsert_def io_simps Let_def split: prod.splits sum.splits if_splits
           dest!: external_effect)

lemma updateDocument_uuids:
  "updateDocument env d content metadata options indexName w = (r, w') \<Longrightarrow> uuids w' = uuids w"
  by (auto simp: updateDocument_def io_simps Let_def split: prod.splits sum.splits if_splits
           dest!: deleteDocumentChunks_uuids chunkDocument_uuids generateEmbeddings_uuids
                  vs_upsert_uuids)

lemma updateDocument_id:
  "updateDocument env d content metadata options indexName w = (Inr doc, w') \<Longrightarrow> doc_id doc = d"
  by (auto simp: updateDocument_def io_simps Let_def split: prod.splits sum.splits if_splits)

text \<open>The definitions unfolded to run an operation on the sample environment.\<close>

lemmas demo_defs = demo_env_def demo_env_answering_def answer_of_def demo_world_def
  demo_entry_def demo_config_def no_options_def

lemmas run_defs = addDocument_def updateDocument_def deleteDocumentChunks_def
  findExistingDocument_def searchDocuments_def generateQueryEmbedding_def
  generateEmbeddings_def getEmbeddingModel_def toSearchResult_def toNeighbor_def
  vs_query_def query_results_def vs_upsert_def vs_deleteVector_def chunkDocument_def
  storedMetadata_def randomUUID_def external_def io_simps Let_def
  checkForDuplicates_def makeAIDecision_def toSimilarDocument_def jsonMatch_def
  addDocumentWithDuplicateCheck_def ordinaryAdd_def addedMessage_def
  createSkippedDocument_def reasonOf_def confidenceOf_def

subsection \<open>The similar documents and the duplicate flag\<close>

text \<open>
  Claim C1. For every configuration with threshold \<open>t\<close> and every sequence of neighbour
  search results, \<open>checkForDuplicates\<close> returns (it never throws) a result whose
  \<open>similarDocuments\<close> are exactly the input results with score at least \<open>t\<close>, in input
  order, each turned into a similar document: its \<open>documentId\<close> is the result's
  \<open>metadata.documentId\<close>, and the chunk id when that is absent (or the empty string, which
  \<open>||\<close> treats alike); \<open>isDuplicate\<close> holds if and only if some input result has score
  at least \<open>t\<close>.
\<close>

theorem checkForDuplicates_filters_by_threshold:
  "\<exists>r w'. checkForDuplicates env newContent newMetadata results config w = (Inr r, w')
     \<and> similarDocuments r =
         map toSimilarDocument (filter (\<lambda>x. dc_threshold config \<le> sr_score x) results)
     \<and> isDuplicate r = (\<exists>x\<in>set results. dc_threshold config \<le> sr_score x)
     \<and> dr_threshold r = dc_threshold config
     \<and> (\<forall>x. sd_documentId (toSimilarDocument x) =
              (case md_documentId (sr_metadata x) of
                 None \<Rightarrow> sr_id x
               | Some d \<Rightarrow> if d = [] then sr_id x else d)
           \<and> sd_chunkId (toSimilarDocument x) = Some (sr_id x)
           \<and> sd_score (toSimilarDocument x) = sr_score x
           \<and> sd_content (toSimilarDocument x) = sr_content x
           \<and> sd_metadata (toSimilarDocument x) = sr_metadata x)"
proof -
  obtain d w' where
    "checkForDuplicates env newContent newMetadata results config w =
       (Inr \<lparr> isDuplicate = (\<exists>x\<in>set results. dc_threshold config \<le> sr_score x),
              similarDocuments = map toSimilarDocument
                 (filter (\<lambda>x. dc_threshold config \<le> sr_score x) results),
              decision = d, dr_threshold = dc_threshold config \<rparr>, w')"
    using checkForDuplicates_shape by blast
  moreover have "\<forall>x. sd_documentId (toSimilarDocument x) =
              (case md_documentId (sr_metadata x) of
                 None \<Rightarrow> sr_id x
               | Some d \<Rightarrow> if d = [] then sr_id x else d)
           \<and> sd_chunkId (toSimilarDocument x) = Some (sr_id x)
           \<and> sd_score (toSimilarDocument x) = sr_score x
           \<and> sd_content (toSimilarDocument x) = sr_content x
           \<and> sd_metadata (toSimilarDocument x) = sr_metadata x"
    by (simp add: toSimilarDocument_def split: option.splits)
  ultimately show ?thesis by simp
qed

theorem checkForDuplicates_filters_by_threshold_witness:
  "\<exists>r w'. checkForDuplicates demo_env ''new text'' empty_metadata
             [demo_result ''c1'' (Some ''doc-1'') (97/100), demo_result ''c2'' None (1/2)]
             demo_config (demo_world [] []) = (Inr r, w')
     \<and> similarDocuments r = [toSimilarDocument (demo_result ''c1'' (Some ''doc-1'') (97/100))]
     \<and> isDuplicate r
     \<and> sd_documentId (toSimilarDocument (demo_result ''c1'' (Some ''doc-1'') (97/100))) = ''doc-1''
     \<and> sd_documentId (toSimilarDocument (demo_result ''c2'' None (1/2))) = ''c2''"
proof -
  let ?rs = "[demo_result ''c1'' (Some ''doc-1'') (97/100), demo_result ''c2'' None (1/2)]"
  obtain r w' where
    run: "checkForDuplicates demo_env ''new text'' empty_metadata ?rs demo_config
            (demo_world [] []) = (Inr r, w')"
    and sim: "similarDocuments r =
         map toSimilarDocument (filter (\<lambda>x. dc_threshold demo_config \<le> sr_score x) ?rs)"
    and dup: "isDuplicate r = (\<exists>x\<in>set ?rs. dc_threshold demo_config \<le> sr_score x)"
    and ids: "\<forall>x. sd_documentId (toSimilarDocument x) =
              (case md_documentId (sr_metadata x) of
                 None \<Rightarrow> sr_id x
               | Some d \<Rightarrow> if d = [] then sr_id x else d)"
    using checkForDuplicates_filters_by_threshold [of demo_env "''new text''" empty_metadata
      ?rs demo_config "demo_world [] []"]
    by blast
  have "similarDocuments r = [toSimilarDocument (demo_result ''c1'' (Some ''doc-1'') (97/100))]"
    using sim by (simp add: demo_config_def demo_result_def)
  moreover have "isDuplicate r"
    using dup by (simp add: demo_config_def demo_result_def)
  moreover have "sd_documentId (toSimilarDocument (demo_result ''c1'' (Some ''doc-1'') (97/100)))
                   = ''doc-1''"
    using ids by (simp add: demo_result_def)
  moreover have "sd_documentId (toSimilarDocument (demo_result ''c2'' None (1/2))) = ''c2''"
    using ids by (simp add: demo_result_def)
  ultimately show ?thesis
    by (intro exI [of _ r] exI [of _ w']) (simp add: run)
qed

subsection \<open>A failing decision call\<close>

text \<open>
  Claim C2. If the text-generation call of an AI decision throws, or its answer holds no
  JSON object that parses, \<open>makeAIDecision\<close> returns the fallback decision: action
  \<open>add\<close>, confidence 0.5, no \<open>targetDocumentId\<close>. Nothing is thrown and the model is
  called exactly once. So \<open>checkForDuplicates\<close> returns its result with that decision,
  and \<open>addDocumentWithDuplicateCheck\<close> goes on as the ordinary \<open>addDocument\<close> and
  reports \<open>added\<close>.
\<close>

theorem generation_failure_falls_back_to_add:
  fixes env :: rag_env and ctx :: decision_context and w :: world
  defines "model \<equiv> getLanguageModel (ec_provider (embeddingConfig env))"
  defines "after \<equiv> w\<lparr> faults := tl (faults w), calls := calls w @ [GenerateText model] \<rparr>"
  assumes "(\<exists>t rest. faults w = Some t # rest)
         \<or> (\<forall>json. jsonMatch (generateText env model (createAIDecisionPrompt ctx)) = Some json
                    \<longrightarrow> JSON_parse env json = None)"
  shows "makeAIDecision env ctx w = (Inr fallbackDecision, after)
       \<and> ai_action fallbackDecision = Some (JStr ''add'')
       \<and> ai_confidence fallbackDecision = 1/2
       \<and> ai_targetDocumentId fallbackDecision = None
       \<and> (\<forall>newContent newMetadata results config.
             (\<exists>x\<in>set results. dc_threshold config \<le> sr_score x)
             \<and> ctx = \<lparr> dx_content = newContent, dx_metadata = newMetadata,
                            dx_similarDocuments = map toSimilarDocument
                              (filter (\<lambda>x. dc_threshold config \<le> sr_score x) results),
                            dx_threshold = dc_threshold config \<rparr>
             \<longrightarrow> checkForDuplicates env newContent newMetadata results config w =
                   (Inr \<lparr> isDuplicate = True,
                          similarDocuments = dx_similarDocuments ctx,
                          decision = Some fallbackDecision,
                          dr_threshold = dc_threshold config \<rparr>, after)
                 \<and> (\<forall>w0 w1 qe existing chunkingOptions indexName.
                       dc_enabled config
                       \<and> generateQueryEmbedding env (take 1000 newContent) w0 = (Inr qe, w1)
                       \<and> vs_query env indexName qe (num_or (dc_topK config) 10) None None w1
                           = (Inr existing, w)
                       \<and> results = map toNeighbor existing
                       \<longrightarrow> addDocumentWithDuplicateCheck env newContent newMetadata
                             chunkingOptions indexName (Some config) w0 =
                           (case addDocument env newContent newMetadata chunkingOptions
                                   indexName after of
                              (Inr doc, w') \<Rightarrow>
                                (Inr \<lparr> ar_document = doc,
                                       ar_duplicateCheck =
                                         Some \<lparr> isDuplicate = True,
                                                similarDocuments = dx_similarDocuments ctx,
                                                decision = Some fallbackDecision,
                                                dr_threshold = dc_threshold config \<rparr>,
                                       ar_action = Added,
                                       ar_message = MsgAddedThoughSimilar (JStr reason_fallback) \<rparr>,
                                 w')
                            | (Inl error, w') \<Rightarrow>
                                (Inl (RagError (''Failed to add document with duplicate check: ''
                                                 @ errorMessage error)
                                        ''DOCUMENT_ADD_WITH_DUPLICATE_CHECK_ERROR''), w'))))"
proof -
  have fail: "(\<exists>t rest. faults w = Some t # rest)
         \<or> (case jsonMatch (generateText env (getLanguageModel (ec_provider (embeddingConfig env)))
                              (createAIDecisionPrompt ctx)) of
               None \<Rightarrow> True
             | Some json \<Rightarrow> JSON_parse env json = None)"
    using assms(3) unfolding model_def by (auto split: option.splits)
  have mk: "makeAIDecision env ctx w = (Inr fallbackDecision, after)"
    unfolding after_def model_def by (rule makeAIDecision_fallback [OF fail])
  have fields: "ai_action fallbackDecision = Some (JStr ''add'')
       \<and> ai_confidence fallbackDecision = 1/2 \<and> ai_targetDocumentId fallbackDecision = None"
    by (simp add: fallbackDecision_def)
  have rest: "checkForDuplicates env newContent newMetadata results config w =
                   (Inr \<lparr> isDuplicate = True,
                          similarDocuments = dx_similarDocuments ctx,
                          decision = Some fallbackDecision,
                          dr_threshold = dc_threshold config \<rparr>, after)
                 \<and> (\<forall>w0 w1 qe existing chunkingOptions indexName.
                       dc_enabled config
                       \<and> generateQueryEmbedding env (take 1000 newContent) w0 = (Inr qe, w1)
                       \<and> vs_query env indexName qe (num_or (dc_topK config) 10) None None w1
                           = (Inr existing, w)
                       \<and> results = map toNeighbor existing
                       \<longrightarrow> addDocumentWithDuplicateCheck env newContent newMetadata
                             chunkingOptions indexName (Some config) w0 =
                           (case addDocument env newContent newMetadata chunkingOptions
                                   indexName after of
                              (Inr doc, w') \<Rightarrow>
                                (Inr \<lparr> ar_document = doc,
                                       ar_duplicateCheck =
                                         Some \<lparr> isDuplicate = True,
                                                similarDocuments = dx_similarDocuments ctx,
                                                decision = Some fallbackDecision,
                                                dr_threshold = dc_threshold config \<rparr>,
                                       ar_action = Added,
                                       ar_message = MsgAddedThoughSimilar (JStr reason_fallback) \<rparr>,
                                 w')
                            | (Inl error, w') \<Rightarrow>
                                (Inl (RagError (''Failed to add document with duplicate check: ''
                                                 @ errorMessage error)
                                        ''DOCUMENT_ADD_WITH_DUPLICATE_CHECK_ERROR''), w')))"
    if some: "\<exists>x\<in>set results. dc_threshold config \<le> sr_score x"
      and ctx: "ctx = \<lparr> dx_content = newContent, dx_metadata = newMetadata,
                            dx_similarDocuments = map toSimilarDocument
                              (filter (\<lambda>x. dc_threshold config \<le> sr_score x) results),
                            dx_threshold = dc_threshold config \<rparr>"
    for newContent newMetadata results config
  proof -
    let ?dup = "\<lparr> isDuplicate = True, similarDocuments = dx_similarDocuments ctx,
                  decision = Some fallbackDecision, dr_threshold = dc_threshold config \<rparr>"
    have ne: "filter (\<lambda>x. dc_threshold config \<le> sr_score x) results \<noteq> []"
      using some by (simp add: filter_empty_conv)
    have chk: "checkForDuplicates env newContent newMetadata results config w = (Inr ?dup, after)"
      using ne mk unfolding ctx by (simp add: checkForDuplicates_def Let_def io_simps)
    have msg: "addedMessage (Some ?dup) = MsgAddedThoughSimilar (JStr reason_fallback)"
      by (simp add: addedMessage_def fallbackDecision_def reason_fallback_def)
    have "addDocumentWithDuplicateCheck env newContent newMetadata chunkingOptions indexName
            (Some config) w0 =
          (case addDocument env newContent newMetadata chunkingOptions indexName after of
             (Inr doc, w') \<Rightarrow>
               (Inr \<lparr> ar_document = doc, ar_duplicateCheck = Some ?dup, ar_action = Added,
                      ar_message = MsgAddedThoughSimilar (JStr reason_fallback) \<rparr>, w')
           | (Inl error, w') \<Rightarrow>
               (Inl (RagError (''Failed to add document with duplicate check: ''
                                @ errorMessage error)
                       ''DOCUMENT_ADD_WITH_DUPLICATE_CHECK_ERROR''), w'))"
      if on: "dc_enabled config"
        and emb: "generateQueryEmbedding env (take 1000 newContent) w0 = (Inr qe, w1)"
        and qry: "vs_query env indexName qe (num_or (dc_topK config) 10) None None w1
                    = (Inr existing, w)"
        and res: "results = map toNeighbor existing"
      for w0 w1 qe existing chunkingOptions indexName
    proof -
      have chk': "checkForDuplicates env newContent newMetadata (map toNeighbor existing) config w
                    = (Inr ?dup, after)"
        using chk unfolding res .
      have "addDocumentWithDuplicateCheck env newContent newMetadata chunkingOptions indexName
              (Some config) w0 =
            try_catch (ordinaryAdd env newContent newMetadata chunkingOptions indexName (Some ?dup))
              (\<lambda>error. throw (RagError (''Failed to add document with duplicate check: ''
                                   @ errorMessage error)
                          ''DOCUMENT_ADD_WITH_DUPLICATE_CHECK_ERROR'')) after"
        by (simp add: addDocumentWithDuplicateCheck_after_check [OF on emb qry chk']
              fallbackDecision_def)
      then show ?thesis
        by (simp only: ordinaryAdd_wrapped msg)
    qed
    with chk show ?thesis by blast
  qed
  from mk fields rest show ?thesis by blast
qed

theorem generation_failure_falls_back_to_add_witness:
  "\<not> isl (fst (addDocumentWithDuplicateCheck demo_env ''hello'' empty_metadata no_options
       ''documents'' (Some demo_config)
       (demo_world [demo_entry ''c1'' ''doc-1'' (93/100)]
          [None, None, Some (Error ''rate limit'')])))
   \<and> ar_action (projr (fst (addDocumentWithDuplicateCheck demo_env ''hello'' empty_metadata
       no_options ''documents'' (Some demo_config)
       (demo_world [demo_entry ''c1'' ''doc-1'' (93/100)]
          [None, None, Some (Error ''rate limit'')])))) = Added
   \<and> map_option decision (ar_duplicateCheck (projr (fst (addDocumentWithDuplicateCheck demo_env
       ''hello'' empty_metadata no_options ''documents'' (Some demo_config)
       (demo_world [demo_entry ''c1'' ''doc-1'' (93/100)]
          [None, None, Some (Error ''rate limit'')]))))) = Some (Some fallbackDecision)
   \<and> calls (snd (addDocumentWithDuplicateCheck demo_env ''hello'' empty_metadata no_options
       ''documents'' (Some demo_config)
       (demo_world [demo_entry ''c1'' ''doc-1'' (93/100)]
          [None, None, Some (Error ''rate limit'')]))) =
      [Embed ''hello'', Query ''documents'' 10, GenerateText ''gpt-4o-mini'',
       Embed ''hello'', Query ''documents'' 1,
       Chunk ''hello'', EmbedMany [''hello''], Upsert ''documents'' 1]"
proof -
  let ?w = "demo_world [demo_entry ''c1'' ''doc-1'' (93/100)]
              [None, None, Some (Error ''rate limit'')]"
  let ?w1 = "?w\<lparr> faults := [None, Some (Error ''rate limit'')], calls := [Embed ''hello''] \<rparr>"
  let ?w2 = "?w\<lparr> faults := [Some (Error ''rate limit'')],
                calls := [Embed ''hello'', Query ''documents'' 10] \<rparr>"
  let ?after = "?w2\<lparr> faults := tl (faults ?w2),
                   calls := calls ?w2 @ [GenerateText (getLanguageModel
                              (ec_provider (embeddingConfig demo_env)))] \<rparr>"
  let ?ex = "[\<lparr> qr_id = ''c1'', qr_score = 93/100,
                qr_metadata = e_metadata (demo_entry ''c1'' ''doc-1'' (93/100)) \<rparr>]"
  let ?ctx = "\<lparr> dx_content = ''hello'', dx_metadata = empty_metadata,
                dx_similarDocuments = map toSimilarDocument
                  (filter (\<lambda>x. dc_threshold demo_config \<le> sr_score x) (map toNeighbor ?ex)),
                dx_threshold = dc_threshold demo_config \<rparr>"
  let ?add = "addDocument demo_env ''hello'' empty_metadata no_options ''documents'' ?after"
  have h: "(\<exists>t rest. faults ?w2 = Some t # rest)
         \<or> (\<forall>json. jsonMatch (generateText demo_env
                       (getLanguageModel (ec_provider (embeddingConfig demo_env)))
                       (createAIDecisionPrompt ?ctx)) = Some json
                    \<longrightarrow> JSON_parse demo_env json = None)"
    by (simp add: demo_world_def)
  note T = generation_failure_falls_back_to_add [where env = demo_env and ctx = ?ctx
      and w = ?w2, OF h]
  have some: "(\<exists>x\<in>set (map toNeighbor ?ex). dc_threshold demo_config \<le> sr_score x)
              \<and> ?ctx = ?ctx"
    by (simp add: toNeighbor_def demo_config_def Let_def)
  have on: "dc_enabled demo_config"
    by (simp add: demo_config_def)
  have emb: "generateQueryEmbedding demo_env (take 1000 ''hello'') ?w = (Inr [1], ?w1)"
    by (simp add: generateQueryEmbedding_def external_def io_simps demo_defs)
  have qry: "vs_query demo_env ''documents'' [1] (num_or (dc_topK demo_config) 10) None None ?w1
               = (Inr ?ex, ?w2)"
    by (simp add: vs_query_def query_results_def external_def io_simps demo_defs)
  note A = T [THEN conjunct2, THEN conjunct2, THEN conjunct2, THEN conjunct2, rule_format,
      OF some, THEN conjunct2, rule_format,
      where ?w0.0 = ?w and ?w1.0 = ?w1 and qe = "[1]" and existing = ?ex
        and indexName = "''documents''" and chunkingOptions = no_options,
      OF conjI [OF on conjI [OF emb conjI [OF qry refl]]]]
  have run: "addDocumentWithDuplicateCheck demo_env ''hello'' empty_metadata no_options
               ''documents'' (Some demo_config) ?w =
             (case ?add of
                (Inr doc, w') \<Rightarrow>
                  (Inr \<lparr> ar_document = doc,
                         ar_duplicateCheck =
                           Some \<lparr> isDuplicate = True,
                                  similarDocuments = dx_similarDocuments ?ctx,
                                  decision = Some fallbackDecision,
                                  dr_threshold = dc_threshold demo_config \<rparr>,
                         ar_action = Added,
                         ar_message = MsgAddedThoughSimilar (JStr reason_fallback) \<rparr>, w')
              | (Inl error, w') \<Rightarrow>
                  (Inl (RagError (''Failed to add document with duplicate check: ''
                                   @ errorMessage error)
                          ''DOCUMENT_ADD_WITH_DUPLICATE_CHECK_ERROR''), w'))"
    by (rule A)
  have "\<not> isl (fst ?add)
        \<and> calls (snd ?add) =
            [Embed ''hello'', Query ''documents'' 10, GenerateText ''gpt-4o-mini'',
             Embed ''hello'', Query ''documents'' 1,
             Chunk ''hello'', EmbedMany [''hello''], Upsert ''documents'' 1]"
    by (simp add: run_defs demo_defs)
  then obtain doc w' where add: "?add = (Inr doc, w')"
    and "calls w' = [Embed ''hello'', Query ''documents'' 10, GenerateText ''gpt-4o-mini'',
             Embed ''hello'', Query ''documents'' 1,
             Chunk ''hello'', EmbedMany [''hello''], Upsert ''documents'' 1]"
    by (metis returnsE)
  then show ?thesis
    by (simp add: run)
qed

subsection \<open>Adding the same content again\<close>

text \<open>
  Claim C3. In \<open>addDocument\<close> of \<open>RagService\<close> (\<open>PgVectorRagService\<close> repeats its
  text), whenever the internal similarity probe (a search with the first 100 characters,
  \<open>topK\<close> 1) returns a top-1 neighbour with score greater than 0.95, the call is
  redirected to \<open>updateDocument\<close> on the existing document's id (the neighbour's
  \<open>metadata.documentId\<close>, else its chunk id): the outcome and the world are those of that
  \<open>updateDocument\<close> (an error rethrown under \<open>DOCUMENT_ADD_ERROR\<close>), no fresh id is
  drawn, and the document returned carries the existing id. So a second \<open>addDocument\<close>
  of identical content, once the probe sees the first, leaves a single logical document.
\<close>

theorem addDocument_redirects_to_update:
  assumes "searchDocuments env (take 100 content) indexName
             \<lparr> so_topK = Some 1, so_filter = None, so_includeMetadata = None,
               so_minScore = None \<rparr> w = (Inr (r # rest), w1)"
      and "sr_score r > 95/100"
  shows "addDocument env content metadata chunkingOptions indexName w =
           (case updateDocument env (str_or (md_documentId (sr_metadata r)) (sr_id r))
                   (Some content) (Some metadata) chunkingOptions indexName w1 of
              (Inr doc, w') \<Rightarrow> (Inr doc, w')
            | (Inl error, w') \<Rightarrow>
                (Inl (RagError (''Failed to add document: '' @ errorMessage error)
                        ''DOCUMENT_ADD_ERROR''), w'))
       \<and> uuids (snd (addDocument env content metadata chunkingOptions indexName w)) = uuids w
       \<and> (\<forall>doc w'. addDocument env content metadata chunkingOptions indexName w = (Inr doc, w')
             \<longrightarrow> doc_id doc = str_or (md_documentId (sr_metadata r)) (sr_id r))"
proof -
  let ?id = "str_or (md_documentId (sr_metadata r)) (sr_id r)"
  let ?upd = "updateDocument env ?id (Some content) (Some metadata) chunkingOptions indexName w1"
  have found: "findExistingDocument env content indexName w =
                 (Inr (Some \<lparr> doc_id = ?id, doc_content = sr_content r,
                              doc_metadata = sr_metadata r,
                              doc_createdAt = now env, doc_updatedAt = now env \<rparr>), w1)"
    using assms by (simp add: findExistingDocument_def io_simps)
  have eq: "addDocument env content metadata chunkingOptions indexName w =
           (case ?upd of
              (Inr doc, w') \<Rightarrow> (Inr doc, w')
            | (Inl error, w') \<Rightarrow>
                (Inl (RagError (''Failed to add document: '' @ errorMessage error)
                        ''DOCUMENT_ADD_ERROR''), w'))"
    by (simp add: addDocument_def io_simps found split: prod.splits sum.splits)
  obtain res w' where upd: "?upd = (res, w')"
    by (cases ?upd)
  have "uuids w' = uuids w1"
    using updateDocument_uuids [OF upd] .
  moreover have "uuids w1 = uuids w"
    using searchDocuments_effect [OF assms(1)] by simp
  ultimately have u: "uuids (snd (addDocument env content metadata chunkingOptions indexName w))
                        = uuids w"
    by (simp add: eq upd split: sum.splits)
  have "doc_id doc = ?id"
    if "addDocument env content metadata chunkingOptions indexName w = (Inr doc, v)" for doc v
  proof -
    from that have "?upd = (Inr doc, v)"
      by (simp add: eq upd split: sum.splits)
    then show ?thesis by (rule updateDocument_id)
  qed
  with eq u show ?thesis by blast
qed

theorem addDocument_redirects_to_update_witness:
  "\<not> isl (fst (addDocument demo_env ''hello'' empty_metadata no_options ''documents''
       (snd (addDocument demo_env ''hello'' empty_metadata no_options ''documents''
              (demo_world [] [])))))
   \<and> doc_id (projr (fst (addDocument demo_env ''hello'' empty_metadata no_options ''documents''
       (demo_world [] [])))) = ''u''
   \<and> doc_id (projr (fst (addDocument demo_env ''hello'' empty_metadata no_options ''documents''
       (snd (addDocument demo_env ''hello'' empty_metadata no_options ''documents''
              (demo_world [] [])))))) = ''u''
   \<and> uuids (snd (addDocument demo_env ''hello'' empty_metadata no_options ''documents''
       (snd (addDocument demo_env ''hello'' empty_metadata no_options ''documents''
              (demo_world [] []))))) = 1
   \<and> map (md_documentId \<circ> e_metadata)
        (vectors (snd (addDocument demo_env ''hello'' empty_metadata no_options ''documents''
          (snd (addDocument demo_env ''hello'' empty_metadata no_options ''documents''
              (demo_world [] []))))) ''documents'') = [Some ''u'']"
proof -
  let ?w1 = "snd (addDocument demo_env ''hello'' empty_metadata no_options ''documents''
              (demo_world [] []))"
  let ?S = "searchDocuments demo_env (take 100 ''hello'') ''documents''
             \<lparr> so_topK = Some 1, so_filter = None, so_includeMetadata = None,
               so_minScore = None \<rparr> ?w1"
  let ?add = "addDocument demo_env ''hello'' empty_metadata no_options ''documents'' ?w1"
  have first: "doc_id (projr (fst (addDocument demo_env ''hello'' empty_metadata no_options
                 ''documents'' (demo_world [] [])))) = ''u'' \<and> uuids ?w1 = 1"
    by (simp add: run_defs demo_defs)
  have found: "\<not> isl (fst ?S) \<and> length (projr (fst ?S)) = 1
               \<and> sr_score (hd (projr (fst ?S))) = 1
               \<and> md_documentId (sr_metadata (hd (projr (fst ?S)))) = Some ''u''"
    by (simp add: run_defs demo_defs)
  then obtain rs v where S: "?S = (Inr rs, v)" and rs: "rs = projr (fst ?S)"
    by (blast elim: returnsE)
  have about: "length rs = 1 \<and> sr_score (hd rs) = 1
               \<and> md_documentId (sr_metadata (hd rs)) = Some ''u''"
    using found unfolding rs by blast
  then obtain r where r: "rs = r # []"
    by (cases rs) auto
  have score: "sr_score r > 95/100" and rid: "md_documentId (sr_metadata r) = Some ''u''"
    using about unfolding r by simp_all
  note T = addDocument_redirects_to_update [OF S [unfolded r] score,
      of empty_metadata no_options]
  have second: "\<not> isl (fst ?add)
     \<and> map (md_documentId \<circ> e_metadata) (vectors (snd ?add) ''documents'') = [Some ''u'']"
    by (simp add: run_defs demo_defs getDefaultDimensions_def)
  then obtain doc v' where add: "?add = (Inr doc, v')"
    by (blast elim: returnsE)
  have "doc_id doc = ''u''"
    using T [THEN conjunct2, THEN conjunct2, rule_format, OF add] rid by simp
  moreover have "uuids (snd ?add) = 1"
    using T [THEN conjunct2, THEN conjunct1] first by simp
  ultimately show ?thesis
    using first second add by simp
qed

subsection \<open>Updating without content\<close>

text \<open>
  \<open>deleteDocumentChunks\<close> asks the store for at most 1000 chunks of the document and
  swallows any failure. A document of 1001 chunks keeps one of them after
  \<open>updateDocument\<close> without content, and so does a document of one chunk when the query
  throws; \<open>updateDocument\<close> returns normally both times.
\<close>

theorem updateDocument_leaves_chunks_counterexample:
  "\<not> isl (fst (updateDocument demo_env ''doc-1'' None None no_options ''documents''
                 (demo_world (many_chunks 1001) [])))
   \<and> length (documentChunks (snd (updateDocument demo_env ''doc-1'' None None no_options
                 ''documents'' (demo_world (many_chunks 1001) []))) ''documents'' ''doc-1'') = 1
   \<and> \<not> isl (fst (updateDocument demo_env ''doc-1'' None None no_options ''documents''
                 (demo_world [demo_entry ''c1'' ''doc-1'' 1] [Some (Error ''connection lost'')])))
   \<and> length (documentChunks (snd (updateDocument demo_env ''doc-1'' None None no_options
                 ''documents'' (demo_world [demo_entry ''c1'' ''doc-1'' 1]
                    [Some (Error ''connection lost'')]))) ''documents'' ''doc-1'') = 1"
proof -
  have w: "failure_free (demo_world (many_chunks 1001) [])"
          "vectors (demo_world (many_chunks 1001) []) ''documents'' = many_chunks 1001"
    by (simp_all add: demo_world_def failure_free_def)
  have "length (documentChunks (snd (deleteDocumentChunks demo_env ''doc-1'' ''documents''
                 (demo_world (many_chunks 1001) []))) ''documents'' ''doc-1'') = 1"
    by (simp add: documentChunks_def many_chunks_left [OF w] demo_entry_def)
  moreover have "length (documentChunks (snd (deleteDocumentChunks demo_env ''doc-1'' ''documents''
                 (demo_world [demo_entry ''c1'' ''doc-1'' 1] [Some (Error ''connection lost'')])))
                 ''documents'' ''doc-1'') = 1"
    by (simp add: documentChunks_def deleteDocumentChunks_def vs_query_def external_def
          io_simps demo_world_def demo_entry_def)
  ultimately show ?thesis
    by (simp add: updateDocument_without_content)
qed

text \<open>
  Claim C4, amended. When no store call fails and at most 1000 chunks are stored under
  \<open>documentId\<close>, \<open>updateDocument\<close> with content omitted deletes all chunks stored
  under that id and upserts none: it makes the one query and one \<open>deleteVector\<close> per
  chunk found, nothing else; after it returns no chunk of the document is stored, and the
  document returned has empty content and the metadata given with \<open>updatedAt\<close> set.
\<close>

theorem updateDocument_without_content_clears:
  assumes "failure_free w" and "length (documentChunks w indexName documentId) \<le> 1000"
  shows "\<exists>w'. updateDocument env documentId None metadata chunkingOptions indexName w =
           (Inr \<lparr> doc_id = documentId, doc_content = [],
                  doc_metadata = (case metadata of None \<Rightarrow> empty_metadata | Some m \<Rightarrow> m)
                                   \<lparr> md_updatedAt := Some (now env) \<rparr>,
                  doc_createdAt = now env, doc_updatedAt = now env \<rparr>, w')
         \<and> documentChunks w' indexName documentId = []
         \<and> calls w' = calls w @ Query indexName 1000 # map (DeleteVector indexName)
              (map qr_id (query_results env (vectors w indexName)
                 (replicate (getDefaultDimensions env) 0) 1000
                 (Some (DocumentIdEq documentId)) None))"
proof -
  obtain w' where "deleteDocumentChunks env documentId indexName w = (Inr (), w')"
    and "documentChunks w' indexName documentId = []"
    and "calls w' = calls w @ Query indexName 1000 # map (DeleteVector indexName)
              (map qr_id (query_results env (vectors w indexName)
                 (replicate (getDefaultDimensions env) 0) 1000
                 (Some (DocumentIdEq documentId)) None))"
    using deleteDocumentChunks_clears [OF assms] by blast
  then show ?thesis
    by (simp add: updateDocument_without_content)
qed

theorem updateDocument_without_content_clears_witness:
  "failure_free (demo_world [demo_entry ''c1'' ''doc-1'' 1, demo_entry ''c9'' ''doc-2'' 1]
      [None, None])
   \<and> length (documentChunks (demo_world [demo_entry ''c1'' ''doc-1'' 1,
                 demo_entry ''c9'' ''doc-2'' 1] [None, None]) ''documents'' ''doc-1'') \<le> 1000
   \<and> (\<exists>w'. updateDocument demo_env ''doc-1'' None None no_options ''documents''
               (demo_world [demo_entry ''c1'' ''doc-1'' 1, demo_entry ''c9'' ''doc-2'' 1]
                  [None, None]) =
             (Inr \<lparr> doc_id = ''doc-1'', doc_content = [],
                    doc_metadata = empty_metadata\<lparr> md_updatedAt := Some 0 \<rparr>,
                    doc_createdAt = 0, doc_updatedAt = 0 \<rparr>, w')
           \<and> documentChunks w' ''documents'' ''doc-1'' = []
           \<and> calls w' = [Query ''documents'' 1000, DeleteVector ''documents'' ''c1''])"
proof -
  let ?w = "demo_world [demo_entry ''c1'' ''doc-1'' 1, demo_entry ''c9'' ''doc-2'' 1]
              [None, None]"
  have h1: "failure_free ?w"
    by (simp add: demo_world_def failure_free_def)
  have h2: "length (documentChunks ?w ''documents'' ''doc-1'') \<le> 1000"
    by (simp add: documentChunks_def demo_world_def demo_entry_def)
  have q: "map qr_id (query_results demo_env (vectors ?w ''documents'')
             (replicate (getDefaultDimensions demo_env) 0) 1000
             (Some (DocumentIdEq ''doc-1'')) None) = [''c1'']"
    by (simp add: query_results_def demo_world_def demo_entry_def demo_env_def)
  have "now demo_env = 0" and "calls ?w = []"
    by (simp_all add: demo_env_def demo_world_def)
  then show ?thesis
    using h1 h2 updateDocument_without_content_clears [OF h1 h2, of demo_env None no_options]
    by (simp add: q)
qed

subsection \<open>Deleting twice\<close>

text \<open>
  With 1001 chunks stored under the document, the first \<open>deleteDocument\<close> returns
  normally and leaves one chunk; the second call finds that chunk and deletes it.
\<close>

theorem deleteDocument_twice_counterexample:
  "fst (deleteDocument demo_env ''doc-1'' ''documents'' (demo_world (many_chunks 1001) [])) = Inr ()
   \<and> documentChunks (snd (deleteDocument demo_env ''doc-1'' ''documents''
        (demo_world (many_chunks 1001) []))) ''documents'' ''doc-1''
       = [demo_entry (chunk_name 1000) ''doc-1'' 1]
   \<and> calls (snd (deleteDocument demo_env ''doc-1'' ''documents''
        (snd (deleteDocument demo_env ''doc-1'' ''documents''
           (demo_world (many_chunks 1001) []))))) =
      calls (snd (deleteDocument demo_env ''doc-1'' ''documents''
           (demo_world (many_chunks 1001) [])))
        @ [Query ''documents'' 1000, DeleteVector ''documents'' (chunk_name 1000)]"
proof -
  let ?w = "demo_world (many_chunks 1001) []"
  let ?w1 = "snd (deleteDocumentChunks demo_env ''doc-1'' ''documents'' ?w)"
  have w: "failure_free ?w" "vectors ?w ''documents'' = many_chunks 1001"
    by (simp_all add: demo_world_def failure_free_def)
  have left: "vectors ?w1 ''documents'' = [demo_entry (chunk_name 1000) ''doc-1'' 1]"
    by (rule many_chunks_left [OF w])
  have f1: "failure_free ?w1"
    using w(1) by (simp add: deleteDocumentChunks_nofault [OF w(1)] failure_free_drop)
  have q: "query_results demo_env [demo_entry (chunk_name 1000) ''doc-1'' 1] qv 1000
             (Some (DocumentIdEq ''doc-1'')) None =
           [\<lparr> qr_id = chunk_name 1000, qr_score = 1,
              qr_metadata = e_metadata (demo_entry (chunk_name 1000) ''doc-1'' 1) \<rparr>]" for qv
    by (simp add: query_results_def demo_entry_def demo_env_def)
  have "calls (snd (deleteDocumentChunks demo_env ''doc-1'' ''documents'' ?w1)) =
          calls ?w1 @ [Query ''documents'' 1000, DeleteVector ''documents'' (chunk_name 1000)]"
    by (simp add: deleteDocumentChunks_nofault [OF f1] left q)
  moreover have "documentChunks ?w1 ''documents'' ''doc-1''
       = [demo_entry (chunk_name 1000) ''doc-1'' 1]"
    by (simp add: documentChunks_def left demo_entry_def)
  moreover have "fst (deleteDocumentChunks demo_env ''doc-1'' ''documents'' ?w) = Inr ()"
    by (simp add: deleteDocumentChunks_nofault [OF w(1)])
  ultimately show ?thesis
    by (simp add: deleteDocument_is_deleteDocumentChunks)
qed

text \<open>
  Claim C5, amended. When no store call fails and at most 1000 chunks are stored under
  \<open>id\<close>, \<open>deleteDocument\<close> returns normally and leaves no chunk of the document, and
  a second call right after it finds no chunk with that \<open>documentId\<close>, deletes nothing
  (its only store call is the query; the stored vectors stay as they are) and returns
  without error. In any world at all, \<open>deleteDocument\<close> of \<open>RagService\<close> returns
  without error.
\<close>

theorem deleteDocument_twice:
  assumes "failure_free w" and "length (documentChunks w indexName documentId) \<le> 1000"
  shows "\<exists>w1. deleteDocument env documentId indexName w = (Inr (), w1)
           \<and> documentChunks w1 indexName documentId = []
           \<and> deleteDocument env documentId indexName w1 =
               (Inr (), w1\<lparr> faults := tl (faults w1),
                           calls := calls w1 @ [Query indexName 1000] \<rparr>)
           \<and> (\<forall>v. fst (deleteDocument env documentId indexName v) = Inr ())"
proof -
  obtain w1 where first: "deleteDocumentChunks env documentId indexName w = (Inr (), w1)"
    and none: "documentChunks w1 indexName documentId = []"
    and f1: "failure_free w1"
    using deleteDocumentChunks_clears [OF assms] by blast
  have "query_results env (vectors w1 indexName) (replicate (getDefaultDimensions env) 0) 1000
          (Some (DocumentIdEq documentId)) None = []"
    using none unfolding documentChunks_def by (rule query_results_none)
  then have "deleteDocumentChunks env documentId indexName w1 =
               (Inr (), w1\<lparr> faults := tl (faults w1),
                           calls := calls w1 @ [Query indexName 1000] \<rparr>)"
    by (simp add: deleteDocumentChunks_nofault [OF f1] drop_Suc)
  moreover have "\<forall>v. fst (deleteDocument env documentId indexName v) = Inr ()"
    by (metis deleteDocument_is_deleteDocumentChunks deleteDocumentChunks_returns fst_conv)
  ultimately show ?thesis
    using first none by (simp add: deleteDocument_is_deleteDocumentChunks)
qed

theorem deleteDocument_twice_witness:
  "failure_free (demo_world [demo_entry ''c1'' ''doc-1'' 1, demo_entry ''c9'' ''doc-2'' 1]
      [None, None, None])
   \<and> length (documentChunks (demo_world [demo_entry ''c1'' ''doc-1'' 1,
                 demo_entry ''c9'' ''doc-2'' 1] [None, None, None]) ''documents'' ''doc-1'') \<le> 1000
   \<and> (\<exists>w1. deleteDocument demo_env ''doc-1'' ''documents''
               (demo_world [demo_entry ''c1'' ''doc-1'' 1, demo_entry ''c9'' ''doc-2'' 1]
                  [None, None, None]) =
             (Inr (), w1)
           \<and> documentChunks w1 ''documents'' ''doc-1'' = []
           \<and> deleteDocument demo_env ''doc-1'' ''documents'' w1 =
               (Inr (), w1\<lparr> faults := tl (faults w1),
                           calls := calls w1 @ [Query ''documents'' 1000] \<rparr>))"
proof -
  let ?w = "demo_world [demo_entry ''c1'' ''doc-1'' 1, demo_entry ''c9'' ''doc-2'' 1]
              [None, None, None]"
  have h1: "failure_free ?w"
    by (simp add: demo_world_def failure_free_def)
  have h2: "length (documentChunks ?w ''documents'' ''doc-1'') \<le> 1000"
    by (simp add: documentChunks_def demo_world_def demo_entry_def)
  show ?thesis
    using h1 h2 deleteDocument_twice [OF h1 h2, of demo_env] by blast
qed

subsection \<open>A decision to skip\<close>

text \<open>
  Claim C6. When \<open>addDocumentWithDuplicateCheck\<close> obtains a decision with action
  \<open>skip\<close> (the check is enabled, the query embedding and the neighbour query succeed,
  and the duplicate check reports a duplicate with that decision), it returns action
  \<open>skipped\<close> and a placeholder document whose id starts with \<open>skipped-\<close> and whose
  metadata carries \<open>skipped: true\<close>, and it writes nothing to the vector store: the
  stored vectors after the call are those before it, and the only external calls made are
  the embedding, the neighbour query and the text generation.
\<close>

theorem skip_decision_writes_nothing:
  assumes "dc_enabled config"
      and "generateQueryEmbedding env (take 1000 content) w = (Inr qe, w1)"
      and "vs_query env indexName qe (num_or (dc_topK config) 10) None None w1 = (Inr existing, w2)"
      and "checkForDuplicates env content metadata (map toNeighbor existing) config w2 = (Inr dup, w3)"
      and "isDuplicate dup" and "decision dup = Some d" and "ai_action d = Some (JStr ''skip'')"
  shows "addDocumentWithDuplicateCheck env content metadata chunkingOptions indexName (Some config) w =
           (Inr \<lparr> ar_document =
                    \<lparr> doc_id = ''skipped-'' @ uuid env (uuids w),
                      doc_content = content,
                      doc_metadata = metadata
                        \<lparr> md_source := Some (str_or (md_source metadata) ''manual_input''),
                          md_createdAt := Some (now env),
                          md_skipped := Some True \<rparr>,
                      doc_createdAt = now env, doc_updatedAt = now env \<rparr>,
                  ar_duplicateCheck = Some dup, ar_action = Skipped,
                  ar_message = MsgSkipped (ai_reason d) \<rparr>,
            w3\<lparr> uuids := Suc (uuids w) \<rparr>)
       \<and> vectors w3 = vectors w
       \<and> calls w3 = calls w @ [Embed (take 1000 content),
                                Query indexName (num_or (dc_topK config) 10),
                                GenerateText (getLanguageModel (ec_provider (embeddingConfig env)))]"
proof -
  have e1: "vectors w1 = vectors w \<and> calls w1 = calls w @ [Embed (take 1000 content)]
            \<and> uuids w1 = uuids w"
    using generateQueryEmbedding_effect [OF assms(2)] by simp
  have e2: "vectors w2 = vectors w1
            \<and> calls w2 = calls w1 @ [Query indexName (num_or (dc_topK config) 10)]
            \<and> uuids w2 = uuids w1"
    using vs_query_effect [OF assms(3)] by simp
  have e3: "vectors w3 = vectors w2
            \<and> calls w3 = calls w2 @ [GenerateText (getLanguageModel (ec_provider (embeddingConfig env)))]
            \<and> uuids w3 = uuids w2"
    using checkForDuplicates_effect [OF assms(4) assms(5)] by simp
  show ?thesis
    using e1 e2 e3 assms(5-7)
    by (simp add: addDocumentWithDuplicateCheck_after_check [OF assms(1-4)]
          createSkippedDocument_def randomUUID_def io_simps)
qed

theorem skip_decision_writes_nothing_witness:
  "isDuplicate (the (ar_duplicateCheck (projr (fst (addDocumentWithDuplicateCheck
       (demo_env_answering (answer_of ''skip'')) ''hello'' empty_metadata no_options ''documents''
       (Some demo_config) (demo_world [demo_entry ''c1'' ''doc-1'' (97/100)] []))))))
   \<and> ar_action (projr (fst (addDocumentWithDuplicateCheck
       (demo_env_answering (answer_of ''skip'')) ''hello'' empty_metadata no_options ''documents''
       (Some demo_config) (demo_world [demo_entry ''c1'' ''doc-1'' (97/100)] [])))) = Skipped
   \<and> md_skipped (doc_metadata (ar_document (projr (fst (addDocumentWithDuplicateCheck
       (demo_env_answering (answer_of ''skip'')) ''hello'' empty_metadata no_options ''documents''
       (Some demo_config) (demo_world [demo_entry ''c1'' ''doc-1'' (97/100)] [])))))) = Some True
   \<and> vectors (snd (addDocumentWithDuplicateCheck
       (demo_env_answering (answer_of ''skip'')) ''hello'' empty_metadata no_options ''documents''
       (Some demo_config) (demo_world [demo_entry ''c1'' ''doc-1'' (97/100)] []))) =
     vectors (demo_world [demo_entry ''c1'' ''doc-1'' (97/100)] [])"
proof -
  let ?E = "demo_env_answering (answer_of ''skip'')"
  let ?w = "demo_world [demo_entry ''c1'' ''doc-1'' (97/100)] []"
  let ?w1 = "?w\<lparr> calls := [Embed ''hello''] \<rparr>"
  let ?w2 = "?w\<lparr> calls := [Embed ''hello'', Query ''documents'' 10] \<rparr>"
  let ?ex = "[\<lparr> qr_id = ''c1'', qr_score = 97/100,
                qr_metadata = e_metadata (demo_entry ''c1'' ''doc-1'' (97/100)) \<rparr>]"
  let ?chk = "checkForDuplicates ?E ''hello'' empty_metadata (map toNeighbor ?ex) demo_config ?w2"
  have on: "dc_enabled demo_config"
    by (simp add: demo_config_def)
  have emb: "generateQueryEmbedding ?E (take 1000 ''hello'') ?w = (Inr [1], ?w1)"
    by (simp add: generateQueryEmbedding_def external_def io_simps demo_defs)
  have qry: "vs_query ?E ''documents'' [1] (num_or (dc_topK demo_config) 10) None None ?w1
               = (Inr ?ex, ?w2)"
    by (simp add: vs_query_def query_results_def external_def io_simps demo_defs)
  have ran: "\<not> isl (fst ?chk) \<and> isDuplicate (projr (fst ?chk))
             \<and> map_option ai_action (decision (projr (fst ?chk))) = Some (Some (JStr ''skip''))"
    by (simp add: checkForDuplicates_def makeAIDecision_def toSimilarDocument_def toNeighbor_def
          jsonMatch_def external_def io_simps Let_def demo_defs)
  then obtain dup w3 where chk: "?chk = (Inr dup, w3)" and "dup = projr (fst ?chk)"
    by (blast elim: returnsE)
  with ran obtain d where dup: "isDuplicate dup"
    and d: "decision dup = Some d" and skip: "ai_action d = Some (JStr ''skip'')"
    by auto
  show ?thesis
    using skip_decision_writes_nothing [OF on emb qry chk dup d skip, of no_options] dup
    by simp
qed

subsection \<open>A decision to update without a target\<close>

text \<open>
  With a stored chunk of document \<open>doc-1\<close> scoring 0.97 and a decision \<open>update\<close>
  without \<open>targetDocumentId\<close>, the call ends in \<open>addDocument\<close>, whose own probe finds
  that chunk above 0.95 and updates \<open>doc-1\<close>: the chunk is deleted and written anew, no
  identifier is drawn, the document returned is \<open>doc-1\<close>, and the action reported is
  \<open>added\<close>.
\<close>

theorem update_without_target_counterexample:
  "\<not> isl (fst (addDocumentWithDuplicateCheck
       (demo_env_answering (answer_of ''update'')) ''hello'' empty_metadata no_options ''documents''
       (Some demo_config) (demo_world [demo_entry ''c1'' ''doc-1'' (97/100)] [])))
   \<and> ar_action (projr (fst (addDocumentWithDuplicateCheck
       (demo_env_answering (answer_of ''update'')) ''hello'' empty_metadata no_options ''documents''
       (Some demo_config) (demo_world [demo_entry ''c1'' ''doc-1'' (97/100)] [])))) = Added
   \<and> doc_id (ar_document (projr (fst (addDocumentWithDuplicateCheck
       (demo_env_answering (answer_of ''update'')) ''hello'' empty_metadata no_options ''documents''
       (Some demo_config) (demo_world [demo_entry ''c1'' ''doc-1'' (97/100)] []))))) = ''doc-1''
   \<and> uuids (snd (addDocumentWithDuplicateCheck
       (demo_env_answering (answer_of ''update'')) ''hello'' empty_metadata no_options ''documents''
       (Some demo_config) (demo_world [demo_entry ''c1'' ''doc-1'' (97/100)] []))) = 0
   \<and> calls (snd (addDocumentWithDuplicateCheck
       (demo_env_answering (answer_of ''update'')) ''hello'' empty_metadata no_options ''documents''
       (Some demo_config) (demo_world [demo_entry ''c1'' ''doc-1'' (97/100)] []))) =
      [Embed ''hello'', Query ''documents'' 10, GenerateText ''gpt-4o-mini'',
       Embed ''hello'', Query ''documents'' 1,
       Query ''documents'' 1000, DeleteVector ''documents'' ''c1'',
       Chunk ''hello'', EmbedMany [''hello''], Upsert ''documents'' 1]"
  by (simp add: run_defs demo_defs getDefaultDimensions_def)

text \<open>
  Claim C7, amended. When \<open>addDocumentWithDuplicateCheck\<close> obtains a decision with
  action \<open>update\<close> but no \<open>targetDocumentId\<close> (absent or empty), the operation is
  treated as add: it goes on exactly as \<open>addDocument\<close> with the same arguments and,
  where that returns, returns its document with action \<open>added\<close>. The document is a
  fresh one (its id drawn from \<open>randomUUID\<close>, the store only chunked into, embedded for
  and upserted to, with no \<open>deleteVector\<close>) whenever \<open>addDocument\<close>'s own probe finds
  no existing document.
\<close>

theorem update_without_target_is_addDocument:
  assumes "dc_enabled config"
      and "generateQueryEmbedding env (take 1000 content) w = (Inr qe, w1)"
      and "vs_query env indexName qe (num_or (dc_topK config) 10) None None w1 = (Inr existing, w2)"
      and "checkForDuplicates env content metadata (map toNeighbor existing) config w2 = (Inr dup, w3)"
      and "isDuplicate dup" and "decision dup = Some d"
      and "ai_action d = Some (JStr ''update'')"
      and "ai_targetDocumentId d = None \<or> ai_targetDocumentId d = Some []"
  shows "addDocumentWithDuplicateCheck env content metadata chunkingOptions indexName (Some config) w =
           (case addDocument env content metadata chunkingOptions indexName w3 of
              (Inr doc, w') \<Rightarrow>
                (Inr \<lparr> ar_document = doc, ar_duplicateCheck = Some dup, ar_action = Added,
                       ar_message = addedMessage (Some dup) \<rparr>, w')
            | (Inl error, w') \<Rightarrow>
                (Inl (RagError (''Failed to add document with duplicate check: ''
                                 @ errorMessage error)
                        ''DOCUMENT_ADD_WITH_DUPLICATE_CHECK_ERROR''), w'))
       \<and> (\<forall>w4 doc w'.
             findExistingDocument env content indexName w3 = (Inr None, w4)
             \<and> addDocument env content metadata chunkingOptions indexName w3 = (Inr doc, w')
             \<longrightarrow> doc_id doc = uuid env (uuids w3)
                 \<and> (\<exists>texts. calls w' = calls w4 @ [Chunk content, EmbedMany texts,
                                                    Upsert indexName (length texts)]))"
proof -
  have "str_or (ai_targetDocumentId d) [] = []"
    using assms(8) by auto
  then have "addDocumentWithDuplicateCheck env content metadata chunkingOptions indexName
               (Some config) w =
             try_catch (ordinaryAdd env content metadata chunkingOptions indexName (Some dup))
               (\<lambda>error. throw (RagError (''Failed to add document with duplicate check: ''
                                   @ errorMessage error)
                          ''DOCUMENT_ADD_WITH_DUPLICATE_CHECK_ERROR'')) w3"
    using assms(5-7) by (simp add: addDocumentWithDuplicateCheck_after_check [OF assms(1-4)])
  then have first: "addDocumentWithDuplicateCheck env content metadata chunkingOptions indexName
               (Some config) w =
           (case addDocument env content metadata chunkingOptions indexName w3 of
              (Inr doc, w') \<Rightarrow>
                (Inr \<lparr> ar_document = doc, ar_duplicateCheck = Some dup, ar_action = Added,
                       ar_message = addedMessage (Some dup) \<rparr>, w')
            | (Inl error, w') \<Rightarrow>
                (Inl (RagError (''Failed to add document with duplicate check: ''
                                 @ errorMessage error)
                        ''DOCUMENT_ADD_WITH_DUPLICATE_CHECK_ERROR''), w'))"
    by (simp only: ordinaryAdd_wrapped)
  have "doc_id doc = uuid env (uuids w3)
        \<and> (\<exists>texts. calls w' = calls w4 @ [Chunk content, EmbedMany texts,
                                          Upsert indexName (length texts)])"
    if "findExistingDocument env content indexName w3 = (Inr None, w4)"
      and "addDocument env content metadata chunkingOptions indexName w3 = (Inr doc, w')"
    for w4 doc w'
    using addDocument_fresh [OF that] findExistingDocument_effect [OF that(1)] by simp
  with first show ?thesis by blast
qed


theorem update_without_target_is_addDocument_witness:
  "\<not> isl (fst (addDocumentWithDuplicateCheck
       (demo_env_answering (answer_of ''update'')) ''hello'' empty_metadata no_options ''documents''
       (Some demo_config) (demo_world [demo_entry ''c1'' ''doc-1'' (93/100)] [])))
   \<and> ar_action (projr (fst (addDocumentWithDuplicateCheck
       (demo_env_answering (answer_of ''update'')) ''hello'' empty_metadata no_options ''documents''
       (Some demo_config) (demo_world [demo_entry ''c1'' ''doc-1'' (93/100)] [])))) = Added
   \<and> doc_id (ar_document (projr (fst (addDocumentWithDuplicateCheck
       (demo_env_answering (answer_of ''update'')) ''hello'' empty_metadata no_options ''documents''
       (Some demo_config) (demo_world [demo_entry ''c1'' ''doc-1'' (93/100)] []))))) = ''u''"
proof -
  let ?E = "demo_env_answering (answer_of ''update'')"
  let ?w = "demo_world [demo_entry ''c1'' ''doc-1'' (93/100)] []"
  let ?w1 = "?w\<lparr> calls := [Embed ''hello''] \<rparr>"
  let ?w2 = "?w\<lparr> calls := [Embed ''hello'', Query ''documents'' 10] \<rparr>"
  let ?ex = "[\<lparr> qr_id = ''c1'', qr_score = 93/100,
                qr_metadata = e_metadata (demo_entry ''c1'' ''doc-1'' (93/100)) \<rparr>]"
  let ?chk = "checkForDuplicates ?E ''hello'' empty_metadata (map toNeighbor ?ex) demo_config ?w2"
  let ?add = "addDocument ?E ''hello'' empty_metadata no_options ''documents'' (snd ?chk)"
  have on: "dc_enabled demo_config"
    by (simp add: demo_config_def)
  have emb: "generateQueryEmbedding ?E (take 1000 ''hello'') ?w = (Inr [1], ?w1)"
    by (simp add: generateQueryEmbedding_def external_def io_simps demo_defs)
  have qry: "vs_query ?E ''documents'' [1] (num_or (dc_topK demo_config) 10) None None ?w1
               = (Inr ?ex, ?w2)"
    by (simp add: vs_query_def query_results_def external_def io_simps demo_defs)
  have ran: "\<not> isl (fst ?chk) \<and> isDuplicate (projr (fst ?chk))
             \<and> map_option ai_action (decision (projr (fst ?chk))) = Some (Some (JStr ''update''))
             \<and> map_option ai_targetDocumentId (decision (projr (fst ?chk))) = Some None"
    by (simp add: checkForDuplicates_def makeAIDecision_def toSimilarDocument_def toNeighbor_def
          jsonMatch_def external_def io_simps Let_def demo_defs)
  then obtain dup w3 where chk: "?chk = (Inr dup, w3)" and "dup = projr (fst ?chk)"
    and w3: "w3 = snd ?chk"
    by (blast elim: returnsE)
  with ran obtain d where dup: "isDuplicate dup"
    and d: "decision dup = Some d" and upd: "ai_action d = Some (JStr ''update'')"
    and tgt: "ai_targetDocumentId d = None \<or> ai_targetDocumentId d = Some []"
    by auto
  have "\<not> isl (fst ?add) \<and> doc_id (projr (fst ?add)) = ''u''"
    by (simp add: run_defs demo_defs)
  then obtain doc w' where add: "?add = (Inr doc, w')" and "doc_id doc = ''u''"
    by (metis returnsE)
  then show ?thesis
    using update_without_target_is_addDocument [OF on emb qry chk dup d upd tgt, of no_options]
    by (simp add: w3)
qed

subsection \<open>A failure while deleting chunks\<close>

text \<open>
  In \<open>RagService\<close> the failure is caught inside \<open>deleteDocumentChunks\<close> and only
  logged: with two chunks stored and the second \<open>deleteVector\<close> throwing,
  \<open>deleteDocument\<close> returns normally and the second chunk stays.
\<close>

theorem libsql_chunk_deletion_failure_swallowed_counterexample:
  "fst (deleteDocument demo_env ''doc-1'' ''documents''
     (demo_world [demo_entry ''c1'' ''doc-1'' 1, demo_entry ''c2'' ''doc-1'' 1]
        [None, None, Some (Error ''connection lost'')])) = Inr ()
   \<and> map e_id (vectors (snd (deleteDocument demo_env ''doc-1'' ''documents''
     (demo_world [demo_entry ''c1'' ''doc-1'' 1, demo_entry ''c2'' ''doc-1'' 1]
        [None, None, Some (Error ''connection lost'')]))) ''documents'') = [''c2'']
   \<and> calls (snd (deleteDocument demo_env ''doc-1'' ''documents''
     (demo_world [demo_entry ''c1'' ''doc-1'' 1, demo_entry ''c2'' ''doc-1'' 1]
        [None, None, Some (Error ''connection lost'')]))) =
       [Query ''documents'' 1000, DeleteVector ''documents'' ''c1'',
        DeleteVector ''documents'' ''c2'']"
  by (simp add: deleteDocument_def deleteDocumentChunks_def vs_query_def query_results_def
        vs_deleteVector_def external_def io_simps demo_world_def demo_entry_def demo_env_def)

text \<open>
  Claim C8, amended. In \<open>QdrantRagService\<close>, whenever the metadata-filtered query or a
  \<open>deleteVector\<close> call throws, \<open>deleteDocumentChunks\<close> throws a \<open>RagError\<close> with code
  \<open>CHUNK_DELETE_ERROR\<close>; the caller of \<open>deleteDocument\<close> receives it rewrapped as a
  \<open>RagError\<close> with code \<open>DOCUMENT_DELETE_ERROR\<close>, the caller of \<open>updateDocument\<close> as one
  with code \<open>DOCUMENT_UPDATE_ERROR\<close>, the message carrying the chunk-deletion message.
  In \<open>RagService\<close> and \<open>PgVectorRagService\<close>, \<open>deleteDocumentChunks\<close> and
  \<open>deleteDocument\<close> return normally whatever happens in the store.
\<close>

theorem chunk_deletion_failure_by_service:
  assumes "bnd (vs_query env indexName (replicate (qd_getDefaultDimensions env) 0) 10000
                  (Some (DocumentIdEq documentId)) None)
             (\<lambda>results. deleteEach indexName (map qr_id results)) w = (Inl t, w')"
  shows "qd_deleteDocumentChunks env documentId indexName w =
           (Inl (RagError (''Failed to delete document chunks: '' @ errorMessage t)
                   ''CHUNK_DELETE_ERROR''), w')
       \<and> qd_deleteDocument env documentId indexName w =
           (Inl (RagError (''Failed to delete document: ''
                             @ ''Failed to delete document chunks: '' @ errorMessage t)
                   ''DOCUMENT_DELETE_ERROR''), w')
       \<and> qd_updateDocument env documentId content metadata chunkingOptions indexName w =
           (Inl (RagError (''Failed to update document: ''
                             @ ''Failed to delete document chunks: '' @ errorMessage t)
                   ''DOCUMENT_UPDATE_ERROR''), w')
       \<and> (\<exists>v. deleteDocumentChunks env documentId indexName w = (Inr (), v))
       \<and> (\<exists>v. deleteDocument env documentId indexName w = (Inr (), v))
       \<and> (\<exists>v. pg_deleteDocumentChunks env documentId indexName w = (Inr (), v))
       \<and> (\<exists>v. pg_deleteDocument env documentId indexName w = (Inr (), v))"
proof -
  have a: "qd_deleteDocumentChunks env documentId indexName w =
           (Inl (RagError (''Failed to delete document chunks: '' @ errorMessage t)
                   ''CHUNK_DELETE_ERROR''), w')"
    using assms by (simp add: qd_deleteDocumentChunks_def try_catch_apply throw_apply)
  have b: "qd_deleteDocument env documentId indexName w =
           (Inl (RagError (''Failed to delete document: ''
                             @ ''Failed to delete document chunks: '' @ errorMessage t)
                   ''DOCUMENT_DELETE_ERROR''), w')"
    by (simp add: qd_deleteDocument_def try_catch_apply throw_apply a)
  have c: "qd_updateDocument env documentId content metadata chunkingOptions indexName w =
           (Inl (RagError (''Failed to update document: ''
                             @ ''Failed to delete document chunks: '' @ errorMessage t)
                   ''DOCUMENT_UPDATE_ERROR''), w')"
    by (simp add: qd_updateDocument_def try_catch_apply throw_apply bnd_apply a)
  have d: "\<exists>v. deleteDocumentChunks env documentId indexName w = (Inr (), v)"
    by (simp add: deleteDocumentChunks_def try_catch_apply ret_apply
          split: prod.splits sum.splits)
  have e: "\<exists>v. pg_deleteDocumentChunks env documentId indexName w = (Inr (), v)"
    by (simp add: pg_deleteDocumentChunks_def try_catch_apply ret_apply
          split: prod.splits sum.splits)
  have f: "\<exists>v. deleteDocument env documentId indexName w = (Inr (), v)"
    using d by (auto simp: deleteDocument_def try_catch_apply)
  have g: "\<exists>v. pg_deleteDocument env documentId indexName w = (Inr (), v)"
    using e by (auto simp: pg_deleteDocument_def try_catch_apply)
  show ?thesis using a b c d e f g by blast
qed


theorem chunk_deletion_failure_by_service_witness:
  "fst (qd_deleteDocumentChunks demo_env ''doc-1'' ''documents''
     (demo_world [demo_entry ''c1'' ''doc-1'' 1, demo_entry ''c2'' ''doc-1'' 1]
        [None, None, Some (Error ''connection lost'')])) =
     Inl (RagError ''Failed to delete document chunks: connection lost'' ''CHUNK_DELETE_ERROR'')
   \<and> fst (qd_deleteDocument demo_env ''doc-1'' ''documents''
     (demo_world [demo_entry ''c1'' ''doc-1'' 1, demo_entry ''c2'' ''doc-1'' 1]
        [None, None, Some (Error ''connection lost'')])) =
     Inl (RagError ''Failed to delete document: Failed to delete document chunks: connection lost''
            ''DOCUMENT_DELETE_ERROR'')
   \<and> fst (qd_updateDocument demo_env ''doc-1'' None None no_options ''documents''
     (demo_world [demo_entry ''c1'' ''doc-1'' 1, demo_entry ''c2'' ''doc-1'' 1]
        [None, None, Some (Error ''connection lost'')])) =
     Inl (RagError ''Failed to update document: Failed to delete document chunks: connection lost''
            ''DOCUMENT_UPDATE_ERROR'')
   \<and> fst (deleteDocument demo_env ''doc-1'' ''documents''
     (demo_world [demo_entry ''c1'' ''doc-1'' 1, demo_entry ''c2'' ''doc-1'' 1]
        [None, None, Some (Error ''connection lost'')])) = Inr ()"
proof -
  let ?w = "demo_world [demo_entry ''c1'' ''doc-1'' 1, demo_entry ''c2'' ''doc-1'' 1]
              [None, None, Some (Error ''connection lost'')]"
  let ?body = "bnd (vs_query demo_env ''documents''
                      (replicate (qd_getDefaultDimensions demo_env) 0) 10000
                      (Some (DocumentIdEq ''doc-1'')) None)
                 (\<lambda>results. deleteEach ''documents'' (map qr_id results))"
  have h: "?body ?w = (Inl (Error ''connection lost''), snd (?body ?w))"
    by (simp add: vs_query_def query_results_def vs_deleteVector_def external_def io_simps
          demo_world_def demo_entry_def demo_env_def)
  have "fst (deleteDocument demo_env ''doc-1'' ''documents'' ?w) = Inr ()"
    using chunk_deletion_failure_by_service [OF h, of None None no_options] by auto
  then show ?thesis
    using chunk_deletion_failure_by_service [OF h, of None None no_options] by simp
qed

subsection \<open>The order of the similar documents\<close>

text \<open>
  \<open>checkForDuplicates\<close> does not sort: with neighbours of scores 0.91 and 0.97 in that
  order and threshold 0.9, the similar documents come out ascending.
\<close>

theorem similarDocuments_unsorted_counterexample:
  "\<not> isl (fst (checkForDuplicates demo_env ''new text'' empty_metadata
        [demo_result ''c1'' (Some ''doc-1'') (91/100), demo_result ''c2'' (Some ''doc-2'') (97/100)]
        demo_config (demo_world [] [])))
   \<and> \<not> sorted_wrt (\<ge>) (map sd_score (similarDocuments (projr (fst
       (checkForDuplicates demo_env ''new text'' empty_metadata
        [demo_result ''c1'' (Some ''doc-1'') (91/100), demo_result ''c2'' (Some ''doc-2'') (97/100)]
        demo_config (demo_world [] []))))))"
  by (simp add: checkForDuplicates_def makeAIDecision_def io_simps Let_def
        demo_config_def demo_result_def demo_env_def demo_world_def external_def
        toSimilarDocument_def jsonMatch_def)
     (rule exI [of _ "97/100"], simp)

text \<open>
  Claim C9, amended. \<open>similarDocuments\<close> keeps the order of the input: it is the
  input's subsequence of results at or above the threshold, so it is ordered by descending
  score whenever the neighbour results handed in are (as the store's \<open>query\<close> answers
  them).
\<close>

theorem similarDocuments_keep_input_order:
  assumes "sorted_wrt (\<ge>) (map sr_score results)"
  shows "\<exists>r w'. checkForDuplicates env newContent newMetadata results config w = (Inr r, w')
     \<and> similarDocuments r =
         map toSimilarDocument (filter (\<lambda>x. dc_threshold config \<le> sr_score x) results)
     \<and> sorted_wrt (\<ge>) (map sd_score (similarDocuments r))"
proof -
  obtain d w' where eq:
    "checkForDuplicates env newContent newMetadata results config w =
       (Inr \<lparr> isDuplicate = (\<exists>x\<in>set results. dc_threshold config \<le> sr_score x),
              similarDocuments = map toSimilarDocument
                 (filter (\<lambda>x. dc_threshold config \<le> sr_score x) results),
              decision = d, dr_threshold = dc_threshold config \<rparr>, w')"
    using checkForDuplicates_shape by blast
  have "map sd_score (map toSimilarDocument (filter (\<lambda>x. dc_threshold config \<le> sr_score x) results))
        = filter (\<lambda>s. dc_threshold config \<le> s) (map sr_score results)"
    by (simp add: filter_map comp_def toSimilarDocument_def)
  moreover have "sorted_wrt (\<ge>) (filter (\<lambda>s. dc_threshold config \<le> s) (map sr_score results))"
    using assms by (rule sorted_wrt_filter)
  ultimately show ?thesis using eq by simp
qed

theorem similarDocuments_keep_input_order_witness:
  "sorted_wrt (\<ge>) (map sr_score
      [demo_result ''c2'' (Some ''doc-2'') (97/100), demo_result ''c1'' (Some ''doc-1'') (91/100)])
   \<and> (\<exists>r w'. checkForDuplicates demo_env ''new text'' empty_metadata
        [demo_result ''c2'' (Some ''doc-2'') (97/100), demo_result ''c1'' (Some ''doc-1'') (91/100)]
        demo_config (demo_world [] []) = (Inr r, w')
      \<and> map sd_score (similarDocuments r) = [97/100, 91/100])"
proof -
  let ?rs = "[demo_result ''c2'' (Some ''doc-2'') (97/100), demo_result ''c1'' (Some ''doc-1'') (91/100)]"
  have h: "sorted_wrt (\<ge>) (map sr_score ?rs)"
    by (simp add: demo_result_def)
  obtain r w' where
    run: "checkForDuplicates demo_env ''new text'' empty_metadata ?rs demo_config
            (demo_world [] []) = (Inr r, w')"
    and sim: "similarDocuments r =
         map toSimilarDocument (filter (\<lambda>x. dc_threshold demo_config \<le> sr_score x) ?rs)"
    using similarDocuments_keep_input_order [OF h, of demo_env "''new text''" empty_metadata
      demo_config "demo_world [] []"]
    by blast
  have "map sd_score (similarDocuments r) = [97/100, 91/100]"
    using sim by (simp add: demo_config_def demo_result_def toSimilarDocument_def)
  then show ?thesis
    by (intro conjI [OF h] exI [of _ r] exI [of _ w']) (simp add: run)
qed

subsection \<open>Adding with the duplicate check switched off\<close>

text \<open>
  Claim C10. When \<open>duplicateCheckConfig\<close> is omitted or its \<open>enabled\<close> flag is false,
  \<open>addDocumentWithDuplicateCheck\<close> is \<open>addDocument\<close> with the same arguments: it
  leaves the world exactly as \<open>addDocument\<close> does (the same stored vectors and the same
  external calls, none for duplicate detection) and returns \<open>addDocument\<close>'s document
  with action \<open>added\<close> and no duplicate check result; where \<open>addDocument\<close> throws, the
  error is rethrown under the code of the outer operation.
\<close>

theorem duplicate_check_disabled_is_addDocument:
  assumes "duplicateCheckConfig = None
           \<or> (\<exists>config. duplicateCheckConfig = Some config \<and> \<not> dc_enabled config)"
  shows "addDocumentWithDuplicateCheck env content metadata chunkingOptions indexName
           duplicateCheckConfig w =
         (case addDocument env content metadata chunkingOptions indexName w of
            (Inr doc, w') \<Rightarrow>
              (Inr \<lparr> ar_document = doc, ar_duplicateCheck = None, ar_action = Added,
                     ar_message = MsgAddedNew \<rparr>, w')
          | (Inl error, w') \<Rightarrow>
              (Inl (RagError (''Failed to add document with duplicate check: ''
                               @ errorMessage error)
                      ''DOCUMENT_ADD_WITH_DUPLICATE_CHECK_ERROR''), w'))"
  using assms
  by (auto simp: addDocumentWithDuplicateCheck_def ordinaryAdd_def addedMessage_def io_simps
           split: prod.splits sum.splits)

theorem duplicate_check_disabled_is_addDocument_witness:
  "(\<exists>config. Some (demo_config\<lparr> dc_enabled := False \<rparr>) = Some config \<and> \<not> dc_enabled config)
   \<and> ar_action (projr (fst (addDocumentWithDuplicateCheck demo_env ''hello'' empty_metadata
        no_options ''documents'' (Some (demo_config\<lparr> dc_enabled := False \<rparr>))
        (demo_world [] [])))) = Added
   \<and> ar_duplicateCheck (projr (fst (addDocumentWithDuplicateCheck demo_env ''hello''
        empty_metadata no_options ''documents'' (Some (demo_config\<lparr> dc_enabled := False \<rparr>))
        (demo_world [] [])))) = None
   \<and> calls (snd (addDocumentWithDuplicateCheck demo_env ''hello'' empty_metadata
        no_options ''documents'' (Some (demo_config\<lparr> dc_enabled := False \<rparr>))
        (demo_world [] []))) =
       [Embed ''hello'', Query ''documents'' 1, Chunk ''hello'', EmbedMany [''hello''],
        Upsert ''documents'' 1]"
proof -
  have h: "Some (demo_config\<lparr> dc_enabled := False \<rparr>) = None
        \<or> (\<exists>config. Some (demo_config\<lparr> dc_enabled := False \<rparr>) = Some config
                     \<and> \<not> dc_enabled config)"
    by simp
  have "\<not> isl (fst (addDocument demo_env ''hello'' empty_metadata no_options ''documents''
               (demo_world [] [])))
      \<and> calls (snd (addDocument demo_env ''hello'' empty_metadata no_options ''documents''
               (demo_world [] []))) =
       [Embed ''hello'', Query ''documents'' 1, Chunk ''hello'', EmbedMany [''hello''],
        Upsert ''documents'' 1]"
    by (simp add: addDocument_def findExistingDocument_def searchDocuments_def
      generateQueryEmbedding_def generateEmbeddings_def getEmbeddingModel_def
      vs_query_def query_results_def vs_upsert_def chunkDocument_def storedMetadata_def
      randomUUID_def external_def io_simps Let_def demo_env_def demo_world_def no_options_def)
  then obtain doc w' where
    run: "addDocument demo_env ''hello'' empty_metadata no_options ''documents''
               (demo_world [] []) = (Inr doc, w')"
    and log: "calls w' = [Embed ''hello'', Query ''documents'' 1, Chunk ''hello'',
                          EmbedMany [''hello''], Upsert ''documents'' 1]"
    by (auto elim: returnsE)
  show ?thesis
    using duplicate_check_disabled_is_addDocument [OF h, of demo_env "''hello''" empty_metadata
        no_options "''documents''" "demo_world [] []"] log
    by (simp add: run)
qed

end
